theory Spec2Isabelle
  imports Main "HOL-Library.Word"
begin

unbundle bit_operations_syntax

section \<open>The naming gRPC client proxy of nacos-sdk-python\<close>

text \<open>
  A shallow embedding of \<^verbatim>\<open>v2/nacos/naming/remote/naming_grpc_client_proxy.py\<close>.
  Every coroutine of \<^verbatim>\<open>NamingGRPCClientProxy\<close> becomes a function from the world before
  the call to the outcome (a raised exception on the left, the returned value on the
  right) and the world after it. The world holds the redo tables of the connection event
  listener and the trace of every effect the call had on a collaborator, in program order.
  One call is followed from its start to its end; interleavings of several coroutines at
  the \<^verbatim>\<open>await\<close> points are outside the model.
\<close>

subsection \<open>Python strings and bytes\<close>

text \<open>
  A \<^typ>\<open>string\<close> stands for a Python \<^verbatim>\<open>str\<close> whose code points lie below 256, one
  \<^typ>\<open>char\<close> per code point. \<^verbatim>\<open>str.isspace\<close> holds below 256 for the code points
  9 to 13, 28 to 32, 133 and 160; \<^verbatim>\<open>str.strip()\<close> drops such characters at both ends.
\<close>

type_synonym byte = "8 word"
type_synonym u32 = "32 word"

definition isspace :: "char \<Rightarrow> bool" where
  "isspace c = ((of_char c :: nat) \<in> {9, 10, 11, 12, 13, 28, 29, 30, 31, 32, 133, 160})"

definition lstrip :: "string \<Rightarrow> string" where
  "lstrip s = dropWhile isspace s"

definition rstrip :: "string \<Rightarrow> string" where
  "rstrip s = rev (dropWhile isspace (rev s))"

definition strip :: "string \<Rightarrow> string" where
  "strip s = rstrip (lstrip s)"

text \<open>\<^verbatim>\<open>str(n)\<close> of an integer: decimal digits, with a minus sign below zero.\<close>

definition digit_char :: "int \<Rightarrow> char" where
  "digit_char d =
     (if d = 0 then CHR ''0'' else if d = 1 then CHR ''1'' else if d = 2 then CHR ''2''
      else if d = 3 then CHR ''3'' else if d = 4 then CHR ''4'' else if d = 5 then CHR ''5''
      else if d = 6 then CHR ''6'' else if d = 7 then CHR ''7'' else if d = 8 then CHR ''8''
      else CHR ''9'')"

function digits10 :: "int \<Rightarrow> string" where
  "digits10 n = (if n < 10 then [digit_char n] else digits10 (n div 10) @ [digit_char (n mod 10)])"
  by pat_completeness auto
termination
  by (relation "measure nat") auto

declare digits10.simps [simp del]

definition str_int :: "int \<Rightarrow> string" where
  "str_int i = (if i < 0 then CHR ''-'' # digits10 (- i) else digits10 i)"

text \<open>
  \<^verbatim>\<open>str.encode()\<close> is UTF-8: a code point below 128 is one byte, a code point from 128
  to 255 is two.
\<close>

definition utf8_char :: "char \<Rightarrow> byte list" where
  "utf8_char c =
     (let b = (of_nat (of_char c) :: byte)
      in if b < 0x80 then [b] else [0xC0 OR drop_bit 6 b, 0x80 OR (b AND 0x3F)])"

definition encode :: "string \<Rightarrow> byte list" where
  "encode s = concat (map utf8_char s)"

text \<open>
  \<^verbatim>\<open>bytes.decode()\<close> on ASCII bytes, where UTF-8 decoding maps each byte to the code
  point of the same number. The proxy decodes base64 text only, which is ASCII
  (\<open>encodebytes_ascii\<close> below).
\<close>

definition decode :: "byte list \<Rightarrow> string" where
  "decode bs = map (\<lambda>b. char_of (unat b)) bs"

subsection \<open>SHA-1, HMAC and base64 of the Python standard library\<close>

text \<open>
  \<^verbatim>\<open>hashlib.sha1\<close> after RFC 3174: the message is padded to a multiple of 64 bytes, each
  block is expanded to 80 words (the schedule is built newest word first and reversed) and
  run through 80 rounds.
\<close>

definition rotl :: "nat \<Rightarrow> u32 \<Rightarrow> u32" where
  "rotl n x = (push_bit n x) OR (drop_bit (32 - n) x)"

definition be32 :: "byte list \<Rightarrow> u32" where
  "be32 bs = foldl (\<lambda>acc b. push_bit 8 acc OR ucast b) 0 bs"

definition u32_bytes :: "u32 \<Rightarrow> byte list" where
  "u32_bytes h = [ucast (drop_bit 24 h), ucast (drop_bit 16 h), ucast (drop_bit 8 h), ucast h]"

definition u64_bytes :: "64 word \<Rightarrow> byte list" where
  "u64_bytes h =
     [ucast (drop_bit 56 h), ucast (drop_bit 48 h), ucast (drop_bit 40 h), ucast (drop_bit 32 h),
      ucast (drop_bit 24 h), ucast (drop_bit 16 h), ucast (drop_bit 8 h), ucast h]"

fun chunks :: "nat \<Rightarrow> 'a list \<Rightarrow> 'a list list" where
  "chunks n xs = (if n = 0 \<or> xs = [] then [] else take n xs # chunks n (drop n xs))"

declare chunks.simps [simp del]

definition sha1_pad :: "byte list \<Rightarrow> byte list" where
  "sha1_pad m =
     m @ [0x80] @ replicate ((119 - length m mod 64) mod 64) 0 @ u64_bytes (of_nat (8 * length m))"

definition sha1_f :: "nat \<Rightarrow> u32 \<Rightarrow> u32 \<Rightarrow> u32 \<Rightarrow> u32" where
  "sha1_f t b c d =
     (if t < 20 then (b AND c) OR (NOT b AND d)
      else if t < 40 then b XOR c XOR d
      else if t < 60 then (b AND c) OR (b AND d) OR (c AND d)
      else b XOR c XOR d)"

definition sha1_k :: "nat \<Rightarrow> u32" where
  "sha1_k t =
     (if t < 20 then 0x5A827999 else if t < 40 then 0x6ED9EBA1
      else if t < 60 then 0x8F1BBCDC else 0xCA62C1D6)"

fun sha1_extend :: "nat \<Rightarrow> u32 list \<Rightarrow> u32 list" where
  "sha1_extend 0 w = w"
| "sha1_extend (Suc n) w = sha1_extend n (rotl 1 (w ! 2 XOR w ! 7 XOR w ! 13 XOR w ! 15) # w)"

type_synonym sha1_state = "u32 \<times> u32 \<times> u32 \<times> u32 \<times> u32"

fun sha1_rounds :: "nat \<Rightarrow> u32 list \<Rightarrow> sha1_state \<Rightarrow> sha1_state" where
  "sha1_rounds t [] s = s"
| "sha1_rounds t (w # ws) (a, b, c, d, e) =
     sha1_rounds (Suc t) ws (rotl 5 a + sha1_f t b c d + e + sha1_k t + w, a, rotl 30 b, c, d)"

definition sha1_block :: "sha1_state \<Rightarrow> byte list \<Rightarrow> sha1_state" where
  "sha1_block s blk =
     (case s of (h0, h1, h2, h3, h4) \<Rightarrow>
        (case sha1_rounds 0 (rev (sha1_extend 64 (rev (map be32 (chunks 4 blk))))) s of
           (a, b, c, d, e) \<Rightarrow> (h0 + a, h1 + b, h2 + c, h3 + d, h4 + e)))"

definition sha1 :: "byte list \<Rightarrow> byte list" where
  "sha1 m =
     (case foldl sha1_block (0x67452301, 0xEFCDAB89, 0x98BADCFE, 0x10325476, 0xC3D2E1F0)
             (chunks 64 (sha1_pad m)) of
        (h0, h1, h2, h3, h4) \<Rightarrow> concat (map u32_bytes [h0, h1, h2, h3, h4]))"

text \<open>
  \<^verbatim>\<open>hmac.new(key, msg, digestmod=hashlib.sha1).digest()\<close> after RFC 2104: a key longer
  than the block of 64 bytes is hashed first, then padded with zero bytes.
\<close>

definition hmac_sha1 :: "byte list \<Rightarrow> byte list \<Rightarrow> byte list" where
  "hmac_sha1 key msg =
     (let k0 = (if length key > 64 then sha1 key else key);
          k = k0 @ replicate (64 - length k0) 0
      in sha1 (map (\<lambda>b. b XOR 0x5C) k @ sha1 (map (\<lambda>b. b XOR 0x36) k @ msg)))"

text \<open>
  \<^verbatim>\<open>base64.encodebytes\<close>: the input is cut into pieces of 57 bytes, each piece is encoded
  by \<^verbatim>\<open>binascii.b2a_base64\<close> (three bytes to four characters of the alphabet, the last
  group filled with \<^verbatim>\<open>=\<close>) and closed by a newline.
\<close>

definition b64_alphabet :: "byte list" where
  "b64_alphabet =
     [0x41, 0x42, 0x43, 0x44, 0x45, 0x46, 0x47, 0x48, 0x49, 0x4A, 0x4B, 0x4C, 0x4D,
      0x4E, 0x4F, 0x50, 0x51, 0x52, 0x53, 0x54, 0x55, 0x56, 0x57, 0x58, 0x59, 0x5A,
      0x61, 0x62, 0x63, 0x64, 0x65, 0x66, 0x67, 0x68, 0x69, 0x6A, 0x6B, 0x6C, 0x6D,
      0x6E, 0x6F, 0x70, 0x71, 0x72, 0x73, 0x74, 0x75, 0x76, 0x77, 0x78, 0x79, 0x7A,
      0x30, 0x31, 0x32, 0x33, 0x34, 0x35, 0x36, 0x37, 0x38, 0x39, 0x2B, 0x2F]"

definition b64_char :: "byte \<Rightarrow> byte" where
  "b64_char x = b64_alphabet ! unat (x AND 0x3F)"

fun b64_groups :: "byte list \<Rightarrow> byte list" where
  "b64_groups [] = []"
| "b64_groups [a] =
     [b64_char (drop_bit 2 a), b64_char (push_bit 4 a), 0x3D, 0x3D]"
| "b64_groups [a, b] =
     [b64_char (drop_bit 2 a), b64_char (push_bit 4 a OR drop_bit 4 b),
      b64_char (push_bit 2 b), 0x3D]"
| "b64_groups (a # b # c # rest) =
     [b64_char (drop_bit 2 a), b64_char (push_bit 4 a OR drop_bit 4 b),
      b64_char (push_bit 2 b OR drop_bit 6 c), b64_char c] @ b64_groups rest"

definition b2a_base64 :: "byte list \<Rightarrow> byte list" where
  "b2a_base64 bs = b64_groups bs @ [0x0A]"

definition encodebytes :: "byte list \<Rightarrow> byte list" where
  "encodebytes s = concat (map b2a_base64 (chunks 57 s))"

subsection \<open>Exceptions\<close>

text \<open>
  The exceptions a call can end with. \<open>NacosException code message\<close> is the SDK's own
  exception with its \<^verbatim>\<open>error_code\<close> and \<^verbatim>\<open>message\<close>. \<open>PyException kind text\<close> is any
  other exception deriving from \<^verbatim>\<open>Exception\<close>, with its class name and its \<^verbatim>\<open>str(e)\<close>.
  \<open>PyBaseException kind text\<close> derives from \<^verbatim>\<open>BaseException\<close> only
  (\<^verbatim>\<open>KeyboardInterrupt\<close>, \<^verbatim>\<open>SystemExit\<close>, and \<^verbatim>\<open>asyncio.CancelledError\<close> from Python 3.8
  on): an \<^verbatim>\<open>except Exception\<close> clause does not catch it.
\<close>

datatype pyexc =
    NacosException int string
  | PyException string string
  | PyBaseException string string

subsection \<open>Model classes\<close>

text \<open>
  Modelled from the spec: the classes \<^verbatim>\<open>Instance\<close> and \<^verbatim>\<open>Service\<close> of
  \<^verbatim>\<open>v2.nacos.naming.model\<close>, which are not among the sources. The proxy reads \<^verbatim>\<open>ip\<close> and
  \<^verbatim>\<open>port\<close> of an instance and hands the rest on untouched.
\<close>

record Instance =
  ip :: string
  port :: int
  weight :: int
  healthy :: bool
  enabled :: bool
  ephemeral :: bool
  metadata :: "(string \<times> string) list"
  clusterName :: string

record service =
  svc_name :: string
  svc_group :: string
  svc_clusters :: string
  hosts :: "Instance list"

record service_list =
  list_count :: int
  services :: "string list"

record list_service_param =
  param_namespace_id :: string
  param_group_name :: string
  page_no :: int
  page_size :: int

text \<open>
  Modelled from the spec: the request classes of \<^verbatim>\<open>naming_request\<close> and the constants of
  \<^verbatim>\<open>NamingRemoteConstants\<close>. A request carries a header dictionary, empty when the
  request is built, the three parts of the service key, and the fields of its class.
\<close>

datatype naming_remote_constant = REGISTER_INSTANCE | DE_REGISTER_INSTANCE | BATCH_REGISTER_INSTANCE

datatype request_body =
    InstanceBody Instance naming_remote_constant
  | BatchInstanceBody "Instance list" naming_remote_constant
  | ServiceListBody int int
  | SubscribeServiceBody string bool

record request =
  headers :: "string \<rightharpoonup> string"
  namespace :: string
  serviceName :: string
  groupName :: string
  body :: request_body

text \<open>The constructors, with the keyword arguments in the order the proxy writes them.\<close>

definition InstanceRequest ::
  "string \<Rightarrow> string \<Rightarrow> string \<Rightarrow> Instance \<Rightarrow> naming_remote_constant \<Rightarrow> request" where
  "InstanceRequest ns service_name group_name inst request_type =
     \<lparr>headers = Map.empty, namespace = ns, serviceName = service_name,
      groupName = group_name, body = InstanceBody inst request_type\<rparr>"

definition BatchInstanceRequest ::
  "string \<Rightarrow> string \<Rightarrow> string \<Rightarrow> Instance list \<Rightarrow> naming_remote_constant \<Rightarrow> request" where
  "BatchInstanceRequest ns service_name group_name insts request_type =
     \<lparr>headers = Map.empty, namespace = ns, serviceName = service_name,
      groupName = group_name, body = BatchInstanceBody insts request_type\<rparr>"

definition ServiceListRequest ::
  "string \<Rightarrow> string \<Rightarrow> string \<Rightarrow> int \<Rightarrow> int \<Rightarrow> request" where
  "ServiceListRequest ns group_name service_name pageNo pageSize =
     \<lparr>headers = Map.empty, namespace = ns, serviceName = service_name,
      groupName = group_name, body = ServiceListBody pageNo pageSize\<rparr>"

definition SubscribeServiceRequest ::
  "string \<Rightarrow> string \<Rightarrow> string \<Rightarrow> string \<Rightarrow> bool \<Rightarrow> request" where
  "SubscribeServiceRequest ns group_name service_name clusters sub =
     \<lparr>headers = Map.empty, namespace = ns, serviceName = service_name,
      groupName = group_name, body = SubscribeServiceBody clusters sub\<rparr>"

definition put_all_headers :: "request \<Rightarrow> (string \<rightharpoonup> string) \<Rightarrow> request" where
  "put_all_headers r hs = r\<lparr>headers := headers r ++ hs\<rparr>"

definition put_header :: "request \<Rightarrow> string \<Rightarrow> string \<Rightarrow> request" where
  "put_header r k v = r\<lparr>headers := (headers r)(k \<mapsto> v)\<rparr>"

text \<open>
  Modelled from the spec: the response classes of \<^verbatim>\<open>naming_response\<close>. The envelope has
  what \<^verbatim>\<open>get_result_code()\<close>, \<^verbatim>\<open>get_error_code()\<close>, \<^verbatim>\<open>get_message()\<close> and
  \<^verbatim>\<open>is_success()\<close> return, each a value of its own. The payload tells the concrete class;
  the four classes the proxy expects do not derive from each other, so \<^verbatim>\<open>issubclass\<close>
  between them is equality.
\<close>

datatype response_class =
    InstanceResponse | BatchInstanceResponse | ServiceListResponse | SubscribeServiceResponse
  | OtherResponse

datatype response_payload =
    InstancePayload
  | BatchInstancePayload
  | ServiceListPayload int "string list"
  | SubscribeServicePayload "service option"
  | OtherPayload

record response =
  result_code :: int
  error_code :: int
  message :: string
  success :: bool
  payload :: response_payload

fun payload_class :: "response_payload \<Rightarrow> response_class" where
  "payload_class InstancePayload = InstanceResponse"
| "payload_class BatchInstancePayload = BatchInstanceResponse"
| "payload_class (ServiceListPayload n names) = ServiceListResponse"
| "payload_class (SubscribeServicePayload info) = SubscribeServiceResponse"
| "payload_class OtherPayload = OtherResponse"

definition class_of :: "response \<Rightarrow> response_class" where
  "class_of r = payload_class (payload r)"

subsection \<open>Collaborators\<close>

text \<open>
  The credentials a provider hands out; an attribute that is \<^verbatim>\<open>None\<close> is \<open>None\<close> here.
  \<open>truthy\<close> is Python's truth value of such an attribute: \<^verbatim>\<open>None\<close> and the empty string
  are false.
\<close>

record credentials =
  access_key_id :: "string option"
  access_key_secret :: "string option"
  security_token :: "string option"

fun truthy :: "string option \<Rightarrow> bool" where
  "truthy None = False"
| "truthy (Some s) = (s \<noteq> [])"

text \<open>
  The names the module imports whose definitions are not among the sources:
  \<^verbatim>\<open>get_group_name\<close> of \<^verbatim>\<open>naming_client_util\<close>, the clock \<^verbatim>\<open>get_current_time_millis\<close>
  and the error code \<^verbatim>\<open>SERVER_ERROR\<close>. They are parameters of the model.
\<close>

record env =
  get_group_name :: "string \<Rightarrow> string \<Rightarrow> string"
  get_current_time_millis :: int
  SERVER_ERROR :: int

text \<open>
  Modelled from the spec: \<^verbatim>\<open>Constants.SERVICE_INFO_SPLITER\<close>, the separator of the
  composite service key.
\<close>

definition SERVICE_INFO_SPLITER :: string where
  "SERVICE_INFO_SPLITER = ''@@''"

text \<open>
  The proxy object. \<open>get_credentials\<close> is what
  \<^verbatim>\<open>client_config.credentials_provider.get_credentials()\<close> gives,
  \<open>inject_security_info\<close> what the server connector makes of a header dictionary, and
  \<open>rpc_client\<close> the answer of \<^verbatim>\<open>rpc_client.request\<close> to a request and a timeout; each may
  raise. \<open>rpc_client\<close> is \<open>None\<close> until \<^verbatim>\<open>start()\<close> has run.
\<close>

record proxy =
  namespace_id :: string
  app_name :: string
  grpc_timeout :: int
  get_credentials :: "pyexc + credentials"
  inject_security_info :: "(string \<rightharpoonup> string) \<Rightarrow> pyexc + (string \<rightharpoonup> string)"
  rpc_client :: "(request \<Rightarrow> int \<Rightarrow> pyexc + response) option"

subsection \<open>The world: redo tables and the trace of effects\<close>

datatype log_level = INFO | ERROR

datatype log_arg =
    ArgStr string
  | ArgInt int
  | ArgInstance Instance
  | ArgInstances "Instance list"
  | ArgResponse response
  | ArgExc pyexc

text \<open>
  One entry per effect on a collaborator. A log line is kept as its level, its literal
  text and the values formatted into it. \<open>RpcSend\<close> is the dispatch of a request with
  its timeout, \<open>RpcDone\<close> the end of that await, with what it raised or returned.
\<close>

datatype effect =
    Log log_level string "log_arg list"
  | CacheInstanceForRedo string string Instance
  | CacheInstancesForRedo string string "Instance list"
  | RemoveInstanceForRedo string string
  | CacheSubscribeForRedo string string
  | RemoveSubscriberForRedo string string
  | InjectSecurityInfo "string \<rightharpoonup> string"
  | RpcSend request int
  | RpcDone "pyexc + response"

datatype redo_data = RedoInstance Instance | RedoInstances "Instance list"

record world =
  instance_redo :: "string \<rightharpoonup> redo_data"
  subscribe_redo :: "(string \<times> string) set"
  trace :: "effect list"

definition emit :: "effect \<Rightarrow> world \<Rightarrow> world" where
  "emit e w = w\<lparr>trace := trace w @ [e]\<rparr>"

text \<open>
  Modelled from the spec: the redo bookkeeping of \<^verbatim>\<open>NamingGrpcConnectionEventListener\<close>,
  which is not among the sources. Recording a registration inserts or replaces the entry
  of the composite key, removing it deletes the entry; subscriptions are kept by composite
  key and clusters. None of them raises.
\<close>

definition cache_instance_for_redo :: "env \<Rightarrow> string \<Rightarrow> string \<Rightarrow> Instance \<Rightarrow> world \<Rightarrow> world" where
  "cache_instance_for_redo E service_name group_name inst w =
     emit (CacheInstanceForRedo service_name group_name inst)
       (w\<lparr>instance_redo := (instance_redo w)(get_group_name E service_name group_name \<mapsto> RedoInstance inst)\<rparr>)"

definition cache_instances_for_redo :: "env \<Rightarrow> string \<Rightarrow> string \<Rightarrow> Instance list \<Rightarrow> world \<Rightarrow> world" where
  "cache_instances_for_redo E service_name group_name insts w =
     emit (CacheInstancesForRedo service_name group_name insts)
       (w\<lparr>instance_redo := (instance_redo w)(get_group_name E service_name group_name \<mapsto> RedoInstances insts)\<rparr>)"

definition remove_instance_for_redo :: "env \<Rightarrow> string \<Rightarrow> string \<Rightarrow> world \<Rightarrow> world" where
  "remove_instance_for_redo E service_name group_name w =
     emit (RemoveInstanceForRedo service_name group_name)
       (w\<lparr>instance_redo := (instance_redo w)(get_group_name E service_name group_name := None)\<rparr>)"

definition cache_subscribe_for_redo :: "string \<Rightarrow> string \<Rightarrow> world \<Rightarrow> world" where
  "cache_subscribe_for_redo full_service_name clusters w =
     emit (CacheSubscribeForRedo full_service_name clusters)
       (w\<lparr>subscribe_redo := insert (full_service_name, clusters) (subscribe_redo w)\<rparr>)"

definition remove_subscriber_for_redo :: "string \<Rightarrow> string \<Rightarrow> world \<Rightarrow> world" where
  "remove_subscriber_for_redo full_service_name clusters w =
     emit (RemoveSubscriberForRedo full_service_name clusters)
       (w\<lparr>subscribe_redo := subscribe_redo w - {(full_service_name, clusters)}\<rparr>)"

subsection \<open>\<^verbatim>\<open>request_naming_server\<close>\<close>

text \<open>
  Lines 67 to 82: with an access key id and an access key secret that are both true, the
  headers \<^verbatim>\<open>ak\<close>, \<^verbatim>\<open>data\<close> and \<^verbatim>\<open>signature\<close> are written into the request, and
  \<^verbatim>\<open>Spas-SecurityToken\<close> when the security token is true as well; otherwise the request is
  left as it is.
\<close>

definition sign_request :: "env \<Rightarrow> credentials \<Rightarrow> request \<Rightarrow> request" where
  "sign_request E credentials request =
     (if truthy (access_key_id credentials) \<and> truthy (access_key_secret credentials) then
        (let service_name = get_group_name E (serviceName request) (groupName request);
             sign_str =
               (if strip service_name \<noteq> []
                then str_int (get_current_time_millis E) @ SERVICE_INFO_SPLITER @ service_name
                else str_int (get_current_time_millis E));
             request1 = put_all_headers request
               [''ak'' \<mapsto> the (access_key_id credentials),
                ''data'' \<mapsto> sign_str,
                ''signature'' \<mapsto>
                  strip (decode (encodebytes
                    (hmac_sha1 (encode (the (access_key_secret credentials))) (encode sign_str))))]
         in if truthy (security_token credentials)
            then put_header request1 ''Spas-SecurityToken'' (the (security_token credentials))
            else request1)
      else request)"

text \<open>
  Reading \<^verbatim>\<open>request\<close> off an \<^verbatim>\<open>rpc_client\<close> that is still \<^verbatim>\<open>None\<close> raises this
  \<^verbatim>\<open>AttributeError\<close>.
\<close>

definition no_rpc_client :: pyexc where
  "no_rpc_client =
     PyException ''AttributeError''
       ([CHR 0x27] @ ''NoneType'' @ [CHR 0x27] @ '' object has no attribute ''
          @ [CHR 0x27] @ ''request'' @ [CHR 0x27])"

text \<open>Lines 65 to 89, the body of the \<^verbatim>\<open>try\<close>.\<close>

definition request_naming_server_try ::
  "env \<Rightarrow> proxy \<Rightarrow> request \<Rightarrow> response_class \<Rightarrow> world \<Rightarrow> (pyexc + response) \<times> world" where
  "request_naming_server_try E self request response_class w =
     (let w1 = emit (InjectSecurityInfo (headers request)) w in
      case inject_security_info self (headers request) of
        Inl e \<Rightarrow> (Inl e, w1)
      | Inr hs \<Rightarrow>
          (case get_credentials self of
             Inl e \<Rightarrow> (Inl e, w1)
           | Inr credentials \<Rightarrow>
               (let request1 = sign_request E credentials (request\<lparr>headers := hs\<rparr>) in
                case rpc_client self of
                  None \<Rightarrow> (Inl no_rpc_client, w1)
                | Some rpc \<Rightarrow>
                    (let w2 = emit (RpcSend request1 (grpc_timeout self)) w1;
                         result = rpc request1 (grpc_timeout self);
                         w3 = emit (RpcDone result) w2 in
                     case result of
                       Inl e \<Rightarrow> (Inl e, w3)
                     | Inr response \<Rightarrow>
                         if result_code response \<noteq> 200
                         then (Inl (NacosException (error_code response) (message response)), w3)
                         else if class_of response = response_class
                         then (Inr response, w3)
                         else (Inl (NacosException (SERVER_ERROR E)
                                 '' Server return invalid response''), w3)))))"

text \<open>
  Lines 90 to 95, the two handlers: a \<^verbatim>\<open>NacosException\<close> is logged and raised again, any
  other \<^verbatim>\<open>Exception\<close> is logged and raised as a \<^verbatim>\<open>NacosException\<close> with
  \<^verbatim>\<open>SERVER_ERROR\<close>; what derives from \<^verbatim>\<open>BaseException\<close> only passes both.
\<close>

definition request_naming_server ::
  "env \<Rightarrow> proxy \<Rightarrow> request \<Rightarrow> response_class \<Rightarrow> world \<Rightarrow> (pyexc + response) \<times> world" where
  "request_naming_server E self request response_class w =
     (case request_naming_server_try E self request response_class w of
        (Inr response, w') \<Rightarrow> (Inr response, w')
      | (Inl (NacosException c m), w') \<Rightarrow>
          (Inl (NacosException c m),
           emit (Log ERROR ''failed to invoke nacos naming server : ''
                   [ArgExc (NacosException c m)]) w')
      | (Inl (PyException k m), w') \<Rightarrow>
          (Inl (NacosException (SERVER_ERROR E) (''Request nacos naming server failed: '' @ m)),
           emit (Log ERROR ''failed to invoke nacos naming server : ''
                   [ArgExc (PyException k m)]) w')
      | (Inl (PyBaseException k m), w') \<Rightarrow> (Inl (PyBaseException k m), w'))"

subsection \<open>The operations of the proxy\<close>

definition register_instance ::
  "env \<Rightarrow> proxy \<Rightarrow> string \<Rightarrow> string \<Rightarrow> Instance \<Rightarrow> world \<Rightarrow> (pyexc + bool) \<times> world" where
  "register_instance E self service_name group_name inst w =
     (let w1 = emit (Log INFO
                 ''register instance service_name:%s, group_name:%s, namespace:%s, instance:%s''
                 [ArgStr service_name, ArgStr group_name, ArgStr (namespace_id self),
                  ArgInstance inst]) w;
          w2 = cache_instance_for_redo E service_name group_name inst w1;
          request = InstanceRequest (namespace_id self) service_name group_name inst
                      REGISTER_INSTANCE
      in case request_naming_server E self request InstanceResponse w2 of
           (Inl e, w3) \<Rightarrow> (Inl e, w3)
         | (Inr response, w3) \<Rightarrow> (Inr (success response), w3))"

definition batch_register_instance ::
  "env \<Rightarrow> proxy \<Rightarrow> string \<Rightarrow> string \<Rightarrow> Instance list \<Rightarrow> world \<Rightarrow> (pyexc + bool) \<times> world" where
  "batch_register_instance E self service_name group_name insts w =
     (let w1 = emit (Log INFO
                 ''batch register instance service_name:%s, group_name:%s, namespace:%s,instances:%s''
                 [ArgStr service_name, ArgStr group_name, ArgStr (namespace_id self),
                  ArgInstances insts]) w;
          w2 = cache_instances_for_redo E service_name group_name insts w1;
          request = BatchInstanceRequest (namespace_id self) service_name group_name insts
                      BATCH_REGISTER_INSTANCE
      in case request_naming_server E self request BatchInstanceResponse w2 of
           (Inl e, w3) \<Rightarrow> (Inl e, w3)
         | (Inr response, w3) \<Rightarrow> (Inr (success response), w3))"

definition deregister_instance ::
  "env \<Rightarrow> proxy \<Rightarrow> string \<Rightarrow> string \<Rightarrow> Instance \<Rightarrow> world \<Rightarrow> (pyexc + bool) \<times> world" where
  "deregister_instance E self service_name group_name inst w =
     (let w1 = emit (Log INFO
                 ''deregister instance ip:%s, port:%s, service_name:%s, group_name:%s, namespace:%s''
                 [ArgStr (ip inst), ArgInt (port inst), ArgStr service_name, ArgStr group_name,
                  ArgStr (namespace_id self)]) w;
          request = InstanceRequest (namespace_id self) service_name group_name inst
                      DE_REGISTER_INSTANCE
      in case request_naming_server E self request InstanceResponse w1 of
           (Inl e, w2) \<Rightarrow> (Inl e, w2)
         | (Inr response, w2) \<Rightarrow>
             (Inr (success response), remove_instance_for_redo E service_name group_name w2))"

text \<open>
  \<^verbatim>\<open>response.count\<close>, \<^verbatim>\<open>response.serviceNames\<close> and \<^verbatim>\<open>response.serviceInfo\<close> exist on
  the class that has them; on any other class the read raises \<^verbatim>\<open>AttributeError\<close>.
\<close>

definition no_attribute :: "string \<Rightarrow> pyexc" where
  "no_attribute name = PyException ''AttributeError'' name"

definition list_services ::
  "env \<Rightarrow> proxy \<Rightarrow> list_service_param \<Rightarrow> world \<Rightarrow> (pyexc + service_list) \<times> world" where
  "list_services E self param w =
     (let w1 = emit (Log INFO ''listService group_name:%s, namespace:%s''
                 [ArgStr (param_group_name param), ArgStr (param_namespace_id param)]) w;
          request = ServiceListRequest (param_namespace_id param) (param_group_name param) []
                      (page_no param) (page_size param)
      in case request_naming_server E self request ServiceListResponse w1 of
           (Inl e, w2) \<Rightarrow> (Inl e, w2)
         | (Inr response, w2) \<Rightarrow>
             (case payload response of
                ServiceListPayload n names \<Rightarrow> (Inr \<lparr>list_count = n, services = names\<rparr>, w2)
              | _ \<Rightarrow> (Inl (no_attribute ''count''), w2)))"

definition subscribe ::
  "env \<Rightarrow> proxy \<Rightarrow> string \<Rightarrow> string \<Rightarrow> string \<Rightarrow> world \<Rightarrow> (pyexc + service option) \<times> world" where
  "subscribe E self service_name group_name clusters w =
     (let w1 = emit (Log INFO
                 ''subscribe service_name:%s, group_name:%s, clusters:%s, namespace:%s''
                 [ArgStr service_name, ArgStr group_name, ArgStr clusters,
                  ArgStr (namespace_id self)]) w;
          w2 = cache_subscribe_for_redo (get_group_name E service_name group_name) clusters w1;
          request = put_header
                      (SubscribeServiceRequest (namespace_id self) group_name service_name
                         clusters True)
                      ''app'' (app_name self)
      in case request_naming_server E self request SubscribeServiceResponse w2 of
           (Inl e, w3) \<Rightarrow> (Inl e, w3)
         | (Inr response, w3) \<Rightarrow>
             if \<not> success response
             then (Inr None,
                   emit (Log ERROR
                     ''failed to subscribe service_name:%s, group_name:%s, clusters:%s, namespace:%s, response:%s''
                     [ArgStr service_name, ArgStr group_name, ArgStr clusters,
                      ArgStr (namespace_id self), ArgResponse response]) w3)
             else (case payload response of
                     SubscribeServicePayload info \<Rightarrow> (Inr info, w3)
                   | _ \<Rightarrow> (Inl (no_attribute ''serviceInfo''), w3)))"

definition unsubscribe ::
  "env \<Rightarrow> proxy \<Rightarrow> string \<Rightarrow> string \<Rightarrow> string \<Rightarrow> world \<Rightarrow> (pyexc + unit) \<times> world" where
  "unsubscribe E self service_name group_name clusters w =
     (let w1 = emit (Log INFO
                 ''unSubscribe service_name:%s, group_name:%s, clusters:%s, namespace:%s''
                 [ArgStr service_name, ArgStr group_name, ArgStr clusters,
                  ArgStr (namespace_id self)]) w;
          w2 = remove_subscriber_for_redo (get_group_name E service_name group_name) clusters w1;
          request = SubscribeServiceRequest (namespace_id self) group_name service_name
                      clusters False
      in case request_naming_server E self request SubscribeServiceResponse w2 of
           (Inl e, w3) \<Rightarrow> (Inl e, w3)
         | (Inr response, w3) \<Rightarrow> (Inr (), w3))"

subsection \<open>Reading a trace\<close>

text \<open>
  The effects that are the dispatch of a request, the return of a response, and a change
  of the redo tables.
\<close>

fun is_RpcSend :: "effect \<Rightarrow> bool" where
  "is_RpcSend (RpcSend r t) = True"
| "is_RpcSend _ = False"

fun is_RpcReturned :: "effect \<Rightarrow> bool" where
  "is_RpcReturned (RpcDone (Inr r)) = True"
| "is_RpcReturned _ = False"

definition is_redo_effect :: "effect \<Rightarrow> bool" where
  "is_redo_effect e =
     (case e of
        CacheInstanceForRedo a b c \<Rightarrow> True
      | CacheInstancesForRedo a b c \<Rightarrow> True
      | RemoveInstanceForRedo a b \<Rightarrow> True
      | CacheSubscribeForRedo a b \<Rightarrow> True
      | RemoveSubscriberForRedo a b \<Rightarrow> True
      | _ \<Rightarrow> False)"

subsection \<open>A concrete client\<close>

text \<open>
  Modelled from the spec: \<^verbatim>\<open>get_group_name\<close>, the composite key
  \<^verbatim>\<open>group@@serviceName\<close>, or the bare service name when the group is empty.
\<close>

definition spec_get_group_name :: "string \<Rightarrow> string \<Rightarrow> string" where
  "spec_get_group_name service_name group_name =
     (if group_name = [] then service_name
      else group_name @ SERVICE_INFO_SPLITER @ service_name)"

definition demo_env :: env where
  "demo_env =
     \<lparr>get_group_name = spec_get_group_name, get_current_time_millis = 1700000000000,
      SERVER_ERROR = 500\<rparr>"

text \<open>
  A started proxy whose transport gives the same answer to every request and whose
  connector leaves the headers as they are.
\<close>

definition demo_proxy :: "credentials \<Rightarrow> pyexc + response \<Rightarrow> proxy" where
  "demo_proxy creds answer =
     \<lparr>namespace_id = ''public'', app_name = ''demo-app'', grpc_timeout = 3000,
      get_credentials = Inr creds, inject_security_info = Inr,
      rpc_client = Some (\<lambda>request timeout. answer)\<rparr>"

definition no_credentials :: credentials where
  "no_credentials = \<lparr>access_key_id = None, access_key_secret = None, security_token = None\<rparr>"

definition demo_credentials :: credentials where
  "demo_credentials =
     \<lparr>access_key_id = Some ''AK'', access_key_secret = Some ''secret'', security_token = None\<rparr>"

definition demo_instance :: Instance where
  "demo_instance =
     \<lparr>ip = ''10.0.0.1'', port = 8080, weight = 1, healthy = True, enabled = True,
      ephemeral = True, metadata = [], clusterName = ''DEFAULT''\<rparr>"

definition demo_world :: world where
  "demo_world = \<lparr>instance_redo = Map.empty, subscribe_redo = {}, trace = []\<rparr>"

definition demo_response :: "int \<Rightarrow> int \<Rightarrow> string \<Rightarrow> bool \<Rightarrow> response_payload \<Rightarrow> response" where
  "demo_response rc ec msg ok p =
     \<lparr>result_code = rc, error_code = ec, message = msg, success = ok, payload = p\<rparr>"

section \<open>Properties\<close>

subsection \<open>Evaluation of concrete calls\<close>

lemmas demo_defs =
  demo_env_def demo_proxy_def demo_world_def demo_instance_def demo_response_def
  no_credentials_def demo_credentials_def spec_get_group_name_def SERVICE_INFO_SPLITER_def

lemmas proxy_defs =
  register_instance_def deregister_instance_def subscribe_def unsubscribe_def
  request_naming_server_def request_naming_server_try_def sign_request_def
  InstanceRequest_def SubscribeServiceRequest_def put_header_def put_all_headers_def
  cache_instance_for_redo_def remove_instance_for_redo_def cache_subscribe_for_redo_def
  remove_subscriber_for_redo_def emit_def class_of_def Let_def

subsection \<open>What \<^verbatim>\<open>request_naming_server\<close> does to the world\<close>

lemma try_redo_unchanged:
  "instance_redo (snd (request_naming_server_try E self req cls w)) = instance_redo w"
  "subscribe_redo (snd (request_naming_server_try E self req cls w)) = subscribe_redo w"
  by (simp_all add: request_naming_server_try_def emit_def Let_def split: sum.splits option.splits)

lemma rns_snd:
  "snd (request_naming_server E self req cls w) =
     (case fst (request_naming_server_try E self req cls w) of
        Inl (NacosException c m) \<Rightarrow>
          emit (Log ERROR ''failed to invoke nacos naming server : '' [ArgExc (NacosException c m)])
            (snd (request_naming_server_try E self req cls w))
      | Inl (PyException k m) \<Rightarrow>
          emit (Log ERROR ''failed to invoke nacos naming server : '' [ArgExc (PyException k m)])
            (snd (request_naming_server_try E self req cls w))
      | _ \<Rightarrow> snd (request_naming_server_try E self req cls w))"
  by (cases "request_naming_server_try E self req cls w")
     (simp add: request_naming_server_def split: sum.split pyexc.split)

lemma rns_fst:
  "fst (request_naming_server E self req cls w) =
     (case fst (request_naming_server_try E self req cls w) of
        Inl (PyException k m) \<Rightarrow>
          Inl (NacosException (SERVER_ERROR E) (''Request nacos naming server failed: '' @ m))
      | x \<Rightarrow> x)"
  by (cases "request_naming_server_try E self req cls w")
     (simp add: request_naming_server_def split: sum.split pyexc.split)

lemma rns_redo_unchanged:
  "instance_redo (snd (request_naming_server E self req cls w)) = instance_redo w"
  "subscribe_redo (snd (request_naming_server E self req cls w)) = subscribe_redo w"
  by (simp_all add: rns_snd try_redo_unchanged emit_def split: sum.split pyexc.split)

lemma try_trace:
  "\<exists>evs. trace (snd (request_naming_server_try E self req cls w)) = trace w @ evs
      \<and> (\<forall>e \<in> set evs. \<not> is_redo_effect e)
      \<and> (\<forall>r. fst (request_naming_server_try E self req cls w) = Inr r
             \<longrightarrow> (\<exists>x \<in> set evs. is_RpcReturned x))"
  by (simp add: request_naming_server_try_def emit_def Let_def is_redo_effect_def
        split: sum.splits option.splits)

lemma try_Inr_iff_rns_Inr:
  "fst (request_naming_server E self req cls w) = Inr r
     \<longleftrightarrow> fst (request_naming_server_try E self req cls w) = Inr r"
  by (simp add: rns_fst split: sum.split pyexc.split)

lemma rns_trace:
  "\<exists>evs. trace (snd (request_naming_server E self req cls w)) = trace w @ evs
      \<and> (\<forall>e \<in> set evs. \<not> is_redo_effect e)
      \<and> (\<forall>r. fst (request_naming_server E self req cls w) = Inr r
             \<longrightarrow> (\<exists>x \<in> set evs. is_RpcReturned x))"
proof -
  obtain evs where evs:
    "trace (snd (request_naming_server_try E self req cls w)) = trace w @ evs"
    "\<forall>e \<in> set evs. \<not> is_redo_effect e"
    "\<forall>r. fst (request_naming_server_try E self req cls w) = Inr r
       \<longrightarrow> (\<exists>x \<in> set evs. is_RpcReturned x)"
    using try_trace [of E self req cls w] by blast
  show ?thesis
  proof (cases "fst (request_naming_server_try E self req cls w)")
    case (Inr r)
    then show ?thesis
      using evs by (simp add: rns_snd try_Inr_iff_rns_Inr)
  next
    case (Inl e)
    then have no: "\<And>r. fst (request_naming_server E self req cls w) \<noteq> Inr r"
      by (simp add: try_Inr_iff_rns_Inr)
    show ?thesis
    proof (cases e)
      case (NacosException c m)
      with Inl evs no show ?thesis
        by (simp add: rns_snd emit_def is_redo_effect_def)
    next
      case (PyException k m)
      with Inl evs no show ?thesis
        by (simp add: rns_snd emit_def is_redo_effect_def)
    next
      case (PyBaseException k m)
      with Inl evs no show ?thesis
        by (simp add: rns_snd)
    qed
  qed
qed

subsection \<open>Order of redo bookkeeping and RPC\<close>

lemma register_instance_snd:
  "snd (register_instance E self sn gn inst w) =
     snd (request_naming_server E self
            (InstanceRequest (namespace_id self) sn gn inst REGISTER_INSTANCE)
            InstanceResponse
            (cache_instance_for_redo E sn gn inst
               (emit (Log INFO
                  ''register instance service_name:%s, group_name:%s, namespace:%s, instance:%s''
                  [ArgStr sn, ArgStr gn, ArgStr (namespace_id self), ArgInstance inst]) w)))"
  by (simp add: register_instance_def Let_def split: prod.split sum.split)

lemma deregister_instance_snd:
  "snd (deregister_instance E self sn gn inst w) =
     (let r = request_naming_server E self
            (InstanceRequest (namespace_id self) sn gn inst DE_REGISTER_INSTANCE)
            InstanceResponse
            (emit (Log INFO
               ''deregister instance ip:%s, port:%s, service_name:%s, group_name:%s, namespace:%s''
               [ArgStr (ip inst), ArgInt (port inst), ArgStr sn, ArgStr gn,
                ArgStr (namespace_id self)]) w)
      in case fst r of
           Inl e \<Rightarrow> snd r
         | Inr response \<Rightarrow> remove_instance_for_redo E sn gn (snd r))"
  by (simp add: deregister_instance_def Let_def split: prod.split sum.split)

lemma deregister_instance_fst:
  "fst (deregister_instance E self sn gn inst w) =
     (case fst (request_naming_server E self
            (InstanceRequest (namespace_id self) sn gn inst DE_REGISTER_INSTANCE)
            InstanceResponse
            (emit (Log INFO
               ''deregister instance ip:%s, port:%s, service_name:%s, group_name:%s, namespace:%s''
               [ArgStr (ip inst), ArgInt (port inst), ArgStr sn, ArgStr gn,
                ArgStr (namespace_id self)]) w)) of
        Inl e \<Rightarrow> Inl e
      | Inr response \<Rightarrow> Inr (success response))"
  by (simp add: deregister_instance_def Let_def split: prod.split sum.split)

lemma register_redo_first:
  "\<exists>evs. trace (snd (register_instance E self sn gn inst w)) = trace w @ evs
      \<and> CacheInstanceForRedo sn gn inst \<in> set (takeWhile (\<lambda>e. \<not> is_RpcSend e) evs)"
proof -
  let ?w1 = "emit (Log INFO
                  ''register instance service_name:%s, group_name:%s, namespace:%s, instance:%s''
                  [ArgStr sn, ArgStr gn, ArgStr (namespace_id self), ArgInstance inst]) w"
  let ?w2 = "cache_instance_for_redo E sn gn inst ?w1"
  let ?req = "(InstanceRequest (namespace_id self) sn gn inst REGISTER_INSTANCE)"
  obtain evs where evs: "trace (snd (request_naming_server E self ?req InstanceResponse ?w2)) = trace ?w2 @ evs"
    using rns_trace [of E self ?req InstanceResponse ?w2] by blast
  have "trace ?w2 = trace w @ [Log INFO
                  ''register instance service_name:%s, group_name:%s, namespace:%s, instance:%s''
                  [ArgStr sn, ArgStr gn, ArgStr (namespace_id self), ArgInstance inst],
                  CacheInstanceForRedo sn gn inst]"
    by (simp add: cache_instance_for_redo_def emit_def)
  with evs show ?thesis
    by (simp add: register_instance_snd)
qed

lemma register_redo_kept:
  "instance_redo (snd (register_instance E self sn gn inst w)) (get_group_name E sn gn)
     = Some (RedoInstance inst)"
  by (simp add: register_instance_snd rns_redo_unchanged cache_instance_for_redo_def emit_def)

lemma takeWhile_stops:
  assumes "\<exists>x \<in> set xs. \<not> P x"
  shows "takeWhile P (xs @ ys) = takeWhile P xs"
  using assms by (induction xs) auto

lemma deregister_removal_last:
  "\<exists>evs. trace (snd (deregister_instance E self sn gn inst w)) = trace w @ evs
      \<and> (\<forall>a b. RemoveInstanceForRedo a b \<notin> set (takeWhile (\<lambda>e. \<not> is_RpcReturned e) evs))"
proof -
  let ?l = "Log INFO
               ''deregister instance ip:%s, port:%s, service_name:%s, group_name:%s, namespace:%s''
               [ArgStr (ip inst), ArgInt (port inst), ArgStr sn, ArgStr gn,
                ArgStr (namespace_id self)]"
  let ?w1 = "emit ?l w"
  let ?req = "(InstanceRequest (namespace_id self) sn gn inst DE_REGISTER_INSTANCE)"
  let ?r = "request_naming_server E self ?req InstanceResponse ?w1"
  obtain evs where evs:
    "trace (snd ?r) = trace ?w1 @ evs"
    "\<forall>e \<in> set evs. \<not> is_redo_effect e"
    "\<forall>r. fst ?r = Inr r \<longrightarrow> (\<exists>x \<in> set evs. is_RpcReturned x)"
    using rns_trace [of E self ?req InstanceResponse ?w1] by blast
  have none: "\<And>a b P. RemoveInstanceForRedo a b \<notin> set (takeWhile P (?l # evs))"
  proof
    fix a b P
    assume "RemoveInstanceForRedo a b \<in> set (takeWhile P (?l # evs))"
    then have "RemoveInstanceForRedo a b \<in> set (?l # evs)"
      by (rule set_takeWhileD [THEN conjunct1])
    with evs(2) show False
      by (auto simp: is_redo_effect_def)
  qed
  show ?thesis
  proof (cases "fst ?r")
    case (Inl e)
    then have "trace (snd (deregister_instance E self sn gn inst w)) = trace w @ (?l # evs)"
      using evs(1) by (simp add: deregister_instance_snd emit_def Let_def)
    with none show ?thesis by blast
  next
    case (Inr response)
    then have tr: "trace (snd (deregister_instance E self sn gn inst w))
          = trace w @ ((?l # evs) @ [RemoveInstanceForRedo sn gn])"
      using evs(1) by (simp add: deregister_instance_snd remove_instance_for_redo_def emit_def Let_def)
    from Inr evs(3) have "\<exists>x \<in> set (?l # evs). \<not> \<not> is_RpcReturned x"
      by simp
    then have "takeWhile (\<lambda>e. \<not> is_RpcReturned e) ((?l # evs) @ [RemoveInstanceForRedo sn gn])
          = takeWhile (\<lambda>e. \<not> is_RpcReturned e) (?l # evs)"
      by (rule takeWhile_stops)
    with none tr show ?thesis by metis
  qed
qed

text \<open>
  Claim C1. A register call records the redo entry of the instance before it dispatches the
  register request: in the effects of the call, the recording comes before the first
  dispatch, and the entry is in the table when the call ends, whether the request failed
  or not. A deregister call removes the redo entry only after its request has been
  dispatched and a response has come back: no removal is among the effects that come
  before the first returned response.
\<close>

theorem redo_recorded_before_register_rpc_and_removed_after_deregister_rpc:
  "(\<exists>evs. trace (snd (register_instance E self sn gn inst w)) = trace w @ evs
       \<and> CacheInstanceForRedo sn gn inst \<in> set (takeWhile (\<lambda>e. \<not> is_RpcSend e) evs))
   \<and> instance_redo (snd (register_instance E self sn gn inst w)) (get_group_name E sn gn)
       = Some (RedoInstance inst)
   \<and> (\<exists>evs. trace (snd (deregister_instance E self sn gn inst w)) = trace w @ evs
       \<and> (\<forall>a b. RemoveInstanceForRedo a b
              \<notin> set (takeWhile (\<lambda>e. \<not> is_RpcReturned e) evs)))"
  using register_redo_first [of E self sn gn inst w]
    register_redo_kept [of E self sn gn inst w]
    deregister_removal_last [of E self sn gn inst w]
  by blast

theorem redo_recorded_before_register_rpc_and_removed_after_deregister_rpc_witness:
  "fst (register_instance demo_env
          (demo_proxy no_credentials (Inl (PyException ''ConnectionError'' ''connection lost'')))
          ''svc-a'' [] demo_instance demo_world)
     = Inl (NacosException 500 ''Request nacos naming server failed: connection lost'')
   \<and> instance_redo (snd (register_instance demo_env
          (demo_proxy no_credentials (Inl (PyException ''ConnectionError'' ''connection lost'')))
          ''svc-a'' [] demo_instance demo_world)) ''svc-a''
     = Some (RedoInstance demo_instance)
   \<and> trace (snd (register_instance demo_env
          (demo_proxy no_credentials (Inl (PyException ''ConnectionError'' ''connection lost'')))
          ''svc-a'' [] demo_instance demo_world))
     = [Log INFO ''register instance service_name:%s, group_name:%s, namespace:%s, instance:%s''
          [ArgStr ''svc-a'', ArgStr [], ArgStr ''public'', ArgInstance demo_instance],
        CacheInstanceForRedo ''svc-a'' [] demo_instance,
        InjectSecurityInfo Map.empty,
        RpcSend (InstanceRequest ''public'' ''svc-a'' [] demo_instance REGISTER_INSTANCE) 3000,
        RpcDone (Inl (PyException ''ConnectionError'' ''connection lost'')),
        Log ERROR ''failed to invoke nacos naming server : ''
          [ArgExc (PyException ''ConnectionError'' ''connection lost'')]]
   \<and> trace (snd (deregister_instance demo_env
          (demo_proxy no_credentials (Inr (demo_response 200 0 [] True InstancePayload)))
          ''svc-a'' [] demo_instance demo_world))
     = [Log INFO
          ''deregister instance ip:%s, port:%s, service_name:%s, group_name:%s, namespace:%s''
          [ArgStr ''10.0.0.1'', ArgInt 8080, ArgStr ''svc-a'', ArgStr [], ArgStr ''public''],
        InjectSecurityInfo Map.empty,
        RpcSend (InstanceRequest ''public'' ''svc-a'' [] demo_instance DE_REGISTER_INSTANCE) 3000,
        RpcDone (Inr (demo_response 200 0 [] True InstancePayload)),
        RemoveInstanceForRedo ''svc-a'' []]"
  using
    redo_recorded_before_register_rpc_and_removed_after_deregister_rpc
      [of demo_env
          "demo_proxy no_credentials (Inl (PyException ''ConnectionError'' ''connection lost''))"
          "''svc-a''" "[]" demo_instance demo_world]
    redo_recorded_before_register_rpc_and_removed_after_deregister_rpc
      [of demo_env
          "demo_proxy no_credentials (Inr (demo_response 200 0 [] True InstancePayload))"
          "''svc-a''" "[]" demo_instance demo_world]
  by (simp add: demo_defs proxy_defs)

subsection \<open>Outcomes of \<^verbatim>\<open>request_naming_server\<close>\<close>

lemma try_answered:
  assumes "inject_security_info self (headers req) = Inr hs"
    and "get_credentials self = Inr creds"
    and "rpc_client self = Some rpc"
    and "rpc (sign_request E creds (req\<lparr>headers := hs\<rparr>)) (grpc_timeout self) = Inr r"
  shows "fst (request_naming_server_try E self req cls w) =
           (if result_code r \<noteq> 200
            then Inl (NacosException (error_code r) (message r))
            else if class_of r = cls then Inr r
            else Inl (NacosException (SERVER_ERROR E) '' Server return invalid response''))"
    and "snd (request_naming_server_try E self req cls w) =
           emit (RpcDone (Inr r))
             (emit (RpcSend (sign_request E creds (req\<lparr>headers := hs\<rparr>)) (grpc_timeout self))
                (emit (InjectSecurityInfo (headers req)) w))"
  using assms by (simp_all add: request_naming_server_try_def Let_def)

lemma try_raised:
  shows "inject_security_info self (headers req) = Inl e
           \<Longrightarrow> fst (request_naming_server_try E self req cls w) = Inl e"
    and "inject_security_info self (headers req) = Inr hs \<Longrightarrow> get_credentials self = Inl e
           \<Longrightarrow> fst (request_naming_server_try E self req cls w) = Inl e"
    and "inject_security_info self (headers req) = Inr hs \<Longrightarrow> get_credentials self = Inr creds
           \<Longrightarrow> rpc_client self = None
           \<Longrightarrow> fst (request_naming_server_try E self req cls w) = Inl no_rpc_client"
    and "inject_security_info self (headers req) = Inr hs \<Longrightarrow> get_credentials self = Inr creds
           \<Longrightarrow> rpc_client self = Some rpc
           \<Longrightarrow> rpc (sign_request E creds (req\<lparr>headers := hs\<rparr>)) (grpc_timeout self) = Inl e
           \<Longrightarrow> fst (request_naming_server_try E self req cls w) = Inl e"
  by (simp_all add: request_naming_server_try_def Let_def)

text \<open>
  Claim C2, as amended. When the transport returns a response whose result code is not 200,
  \<^verbatim>\<open>request_naming_server\<close> raises a \<^verbatim>\<open>NacosException\<close> that carries the error code and
  the message of the response. The code it carries is what \<^verbatim>\<open>get_error_code()\<close> gives,
  not the result code.
\<close>

theorem non_200_raises_error_code_and_message:
  assumes "inject_security_info self (headers req) = Inr hs"
    and "get_credentials self = Inr creds"
    and "rpc_client self = Some rpc"
    and "rpc (sign_request E creds (req\<lparr>headers := hs\<rparr>)) (grpc_timeout self) = Inr r"
    and "result_code r \<noteq> 200"
  shows "fst (request_naming_server E self req cls w)
           = Inl (NacosException (error_code r) (message r))"
  using assms by (simp add: rns_fst try_answered(1) [where w = w and cls = cls])

theorem non_200_raises_error_code_and_message_witness:
  "fst (request_naming_server demo_env
          (demo_proxy no_credentials (Inr (demo_response 500 500 ''overflow'' False OtherPayload)))
          (InstanceRequest ''public'' ''svc-a'' [] demo_instance REGISTER_INSTANCE)
          InstanceResponse demo_world)
     = Inl (NacosException 500 ''overflow'')"
  using non_200_raises_error_code_and_message
    [of "demo_proxy no_credentials (Inr (demo_response 500 500 ''overflow'' False OtherPayload))"
        "InstanceRequest ''public'' ''svc-a'' [] demo_instance REGISTER_INSTANCE"
        "Map.empty" no_credentials "\<lambda>request timeout. Inr (demo_response 500 500 ''overflow'' False OtherPayload)"
        demo_env "demo_response 500 500 ''overflow'' False OtherPayload" InstanceResponse demo_world]
  by (simp add: demo_defs proxy_defs)

text \<open>
  Claim C2 as it was stated fails: a response with result code 500, error code 403 and
  message \<^verbatim>\<open>overflow\<close> ends in \<^verbatim>\<open>NacosException(403, "overflow")\<close>, not in code 500.
\<close>

theorem result_code_500_not_carried_counterexample:
  "result_code (demo_response 500 403 ''overflow'' False OtherPayload) = 500
   \<and> message (demo_response 500 403 ''overflow'' False OtherPayload) = ''overflow''
   \<and> fst (request_naming_server demo_env
          (demo_proxy no_credentials (Inr (demo_response 500 403 ''overflow'' False OtherPayload)))
          (InstanceRequest ''public'' ''svc-a'' [] demo_instance REGISTER_INSTANCE)
          InstanceResponse demo_world)
     = Inl (NacosException 403 ''overflow'')
   \<and> fst (request_naming_server demo_env
          (demo_proxy no_credentials (Inr (demo_response 500 403 ''overflow'' False OtherPayload)))
          (InstanceRequest ''public'' ''svc-a'' [] demo_instance REGISTER_INSTANCE)
          InstanceResponse demo_world)
     \<noteq> Inl (NacosException 500 ''overflow'')"
  by (simp add: demo_defs proxy_defs)

text \<open>
  Claim C3, as amended. An exception that derives from \<^verbatim>\<open>Exception\<close> and is not a
  \<^verbatim>\<open>NacosException\<close>, raised by the connector, by the credentials provider or by the
  transport, never reaches the caller: \<^verbatim>\<open>request_naming_server\<close> raises a
  \<^verbatim>\<open>NacosException\<close> with \<^verbatim>\<open>SERVER_ERROR\<close> in its place, whose message ends with the
  text of the original exception.
\<close>

theorem exceptions_rewrapped_as_server_error:
  "(\<forall>k' m'. fst (request_naming_server E self req cls w) \<noteq> Inl (PyException k' m'))
   \<and> (inject_security_info self (headers req) = Inl (PyException k m)
        \<longrightarrow> fst (request_naming_server E self req cls w)
            = Inl (NacosException (SERVER_ERROR E) (''Request nacos naming server failed: '' @ m)))
   \<and> (\<forall>hs. inject_security_info self (headers req) = Inr hs
        \<longrightarrow> get_credentials self = Inl (PyException k m)
        \<longrightarrow> fst (request_naming_server E self req cls w)
            = Inl (NacosException (SERVER_ERROR E) (''Request nacos naming server failed: '' @ m)))
   \<and> (\<forall>hs creds rpc. inject_security_info self (headers req) = Inr hs
        \<longrightarrow> get_credentials self = Inr creds
        \<longrightarrow> rpc_client self = Some rpc
        \<longrightarrow> rpc (sign_request E creds (req\<lparr>headers := hs\<rparr>)) (grpc_timeout self)
            = Inl (PyException k m)
        \<longrightarrow> fst (request_naming_server E self req cls w)
            = Inl (NacosException (SERVER_ERROR E) (''Request nacos naming server failed: '' @ m)))"
proof (intro conjI allI impI)
  fix k' m'
  show "fst (request_naming_server E self req cls w) \<noteq> Inl (PyException k' m')"
    by (simp add: rns_fst split: sum.split pyexc.split)
next
  assume "inject_security_info self (headers req) = Inl (PyException k m)"
  then show "fst (request_naming_server E self req cls w)
      = Inl (NacosException (SERVER_ERROR E) (''Request nacos naming server failed: '' @ m))"
    by (simp add: rns_fst try_raised(1) [where w = w and cls = cls and E = E])
next
  fix hs
  assume "inject_security_info self (headers req) = Inr hs"
    and "get_credentials self = Inl (PyException k m)"
  then show "fst (request_naming_server E self req cls w)
      = Inl (NacosException (SERVER_ERROR E) (''Request nacos naming server failed: '' @ m))"
    by (simp add: rns_fst try_raised(2) [where w = w and cls = cls and E = E])
next
  fix hs creds rpc
  assume "inject_security_info self (headers req) = Inr hs"
    and "get_credentials self = Inr creds"
    and "rpc_client self = Some rpc"
    and "rpc (sign_request E creds (req\<lparr>headers := hs\<rparr>)) (grpc_timeout self)
            = Inl (PyException k m)"
  then show "fst (request_naming_server E self req cls w)
      = Inl (NacosException (SERVER_ERROR E) (''Request nacos naming server failed: '' @ m))"
    by (simp add: rns_fst try_raised(4) [where w = w and cls = cls])
qed

theorem exceptions_rewrapped_as_server_error_witness:
  "fst (request_naming_server demo_env
          ((demo_proxy no_credentials (Inr (demo_response 200 0 [] True InstancePayload)))
             \<lparr>inject_security_info := \<lambda>hs. Inl (PyException ''KeyError'' ''accessToken'')\<rparr>)
          (InstanceRequest ''public'' ''svc-a'' [] demo_instance REGISTER_INSTANCE)
          InstanceResponse demo_world)
     = Inl (NacosException 500 ''Request nacos naming server failed: accessToken'')
   \<and> fst (request_naming_server demo_env
          ((demo_proxy no_credentials (Inr (demo_response 200 0 [] True InstancePayload)))
             \<lparr>get_credentials := Inl (PyException ''OSError'' ''no credentials file'')\<rparr>)
          (InstanceRequest ''public'' ''svc-a'' [] demo_instance REGISTER_INSTANCE)
          InstanceResponse demo_world)
     = Inl (NacosException 500 ''Request nacos naming server failed: no credentials file'')
   \<and> fst (request_naming_server demo_env
          (demo_proxy no_credentials (Inl (PyException ''ConnectionError'' ''connection lost'')))
          (InstanceRequest ''public'' ''svc-a'' [] demo_instance REGISTER_INSTANCE)
          InstanceResponse demo_world)
     = Inl (NacosException 500 ''Request nacos naming server failed: connection lost'')"
  using
    exceptions_rewrapped_as_server_error
      [of demo_env
          "(demo_proxy no_credentials (Inr (demo_response 200 0 [] True InstancePayload)))
             \<lparr>inject_security_info := \<lambda>hs. Inl (PyException ''KeyError'' ''accessToken'')\<rparr>"
          "InstanceRequest ''public'' ''svc-a'' [] demo_instance REGISTER_INSTANCE"
          InstanceResponse demo_world "''KeyError''" "''accessToken''"]
    exceptions_rewrapped_as_server_error
      [of demo_env
          "(demo_proxy no_credentials (Inr (demo_response 200 0 [] True InstancePayload)))
             \<lparr>get_credentials := Inl (PyException ''OSError'' ''no credentials file'')\<rparr>"
          "InstanceRequest ''public'' ''svc-a'' [] demo_instance REGISTER_INSTANCE"
          InstanceResponse demo_world "''OSError''" "''no credentials file''"]
    exceptions_rewrapped_as_server_error
      [of demo_env
          "demo_proxy no_credentials (Inl (PyException ''ConnectionError'' ''connection lost''))"
          "InstanceRequest ''public'' ''svc-a'' [] demo_instance REGISTER_INSTANCE"
          InstanceResponse demo_world "''ConnectionError''" "''connection lost''"]
  by (simp add: demo_defs InstanceRequest_def)

text \<open>
  Claim C3 as it was stated fails for an exception that derives from \<^verbatim>\<open>BaseException\<close>
  only: a transport call that ends in \<^verbatim>\<open>asyncio.CancelledError\<close> passes both handlers, and
  the caller gets it as it is.
\<close>

theorem cancelled_error_not_rewrapped_counterexample:
  "fst (request_naming_server demo_env
          (demo_proxy no_credentials (Inl (PyBaseException ''CancelledError'' [])))
          (InstanceRequest ''public'' ''svc-a'' [] demo_instance REGISTER_INSTANCE)
          InstanceResponse demo_world)
     = Inl (PyBaseException ''CancelledError'' [])"
  by (simp add: demo_defs proxy_defs)

text \<open>
  Claim C5. When the transport returns a response with result code 200,
  \<^verbatim>\<open>request_naming_server\<close> returns it if its class is the expected one, and raises a
  \<^verbatim>\<open>NacosException\<close> with \<^verbatim>\<open>SERVER_ERROR\<close> and the message
  \<^verbatim>\<open> Server return invalid response\<close> if it is not.
\<close>

theorem response_class_checked:
  assumes "inject_security_info self (headers req) = Inr hs"
    and "get_credentials self = Inr creds"
    and "rpc_client self = Some rpc"
    and "rpc (sign_request E creds (req\<lparr>headers := hs\<rparr>)) (grpc_timeout self) = Inr r"
    and "result_code r = 200"
  shows "fst (request_naming_server E self req cls w) =
           (if class_of r = cls then Inr r
            else Inl (NacosException (SERVER_ERROR E) '' Server return invalid response''))"
  using assms by (simp add: rns_fst try_answered(1) [where w = w and cls = cls])

theorem response_class_checked_witness:
  "fst (request_naming_server demo_env
          (demo_proxy no_credentials (Inr (demo_response 200 0 [] True (ServiceListPayload 0 []))))
          (InstanceRequest ''public'' ''svc-a'' [] demo_instance REGISTER_INSTANCE)
          InstanceResponse demo_world)
     = Inl (NacosException 500 '' Server return invalid response'')
   \<and> fst (request_naming_server demo_env
          (demo_proxy no_credentials (Inr (demo_response 200 0 [] True InstancePayload)))
          (InstanceRequest ''public'' ''svc-a'' [] demo_instance REGISTER_INSTANCE)
          InstanceResponse demo_world)
     = Inr (demo_response 200 0 [] True InstancePayload)"
  using
    response_class_checked
      [of "demo_proxy no_credentials (Inr (demo_response 200 0 [] True (ServiceListPayload 0 [])))"
          "InstanceRequest ''public'' ''svc-a'' [] demo_instance REGISTER_INSTANCE"
          "Map.empty" no_credentials
          "\<lambda>request timeout. Inr (demo_response 200 0 [] True (ServiceListPayload 0 []))"
          demo_env "demo_response 200 0 [] True (ServiceListPayload 0 [])"
          InstanceResponse demo_world]
    response_class_checked
      [of "demo_proxy no_credentials (Inr (demo_response 200 0 [] True InstancePayload))"
          "InstanceRequest ''public'' ''svc-a'' [] demo_instance REGISTER_INSTANCE"
          "Map.empty" no_credentials
          "\<lambda>request timeout. Inr (demo_response 200 0 [] True InstancePayload)"
          demo_env "demo_response 200 0 [] True InstancePayload"
          InstanceResponse demo_world]
  by (simp add: demo_defs proxy_defs)

subsection \<open>The base64 text has no whitespace but its last newline\<close>

lemma b64_index_bound: "unat ((x :: byte) AND 0x3F) < 64"
proof -
  have "unat (x AND 0x3F) \<le> unat (0x3F :: byte)"
    by (rule word_and_le1 [THEN word_le_nat_alt [THEN iffD1]])
  then show ?thesis by simp
qed

lemma b64_alphabet_chars:
  "\<forall>b \<in> set b64_alphabet. \<not> isspace (char_of (unat b)) \<and> b < 0x80"
  by (simp add: b64_alphabet_def isspace_def)

lemma b64_char_in_alphabet: "b64_char x \<in> set b64_alphabet"
proof -
  have "length b64_alphabet = 64"
    by (simp add: b64_alphabet_def)
  then show ?thesis
    unfolding b64_char_def using b64_index_bound [of x] by (simp add: nth_mem)
qed

lemma b64_char_not_space: "\<not> isspace (char_of (unat (b64_char x)))"
  using b64_alphabet_chars b64_char_in_alphabet by blast

lemma b64_char_ascii: "b64_char x < 0x80"
  using b64_alphabet_chars b64_char_in_alphabet by blast

lemma b64_groups_ascii: "\<forall>b \<in> set (b64_groups bs). b < 0x80"
  by (induction bs rule: b64_groups.induct) (simp_all add: b64_char_ascii)

lemma encodebytes_ascii: "\<forall>b \<in> set (encodebytes s). b < 0x80"
  by (auto simp add: encodebytes_def b2a_base64_def b64_groups_ascii)

lemma b64_groups_head:
  "bs \<noteq> [] \<Longrightarrow> \<exists>x rest. b64_groups bs = b64_char x # rest"
  by (induction bs rule: b64_groups.induct) auto

lemma encodebytes_head:
  "s = [] \<and> encodebytes s = [] \<or> (\<exists>x rest. encodebytes s = b64_char x # rest)"
proof (cases "s = []")
  case True
  then show ?thesis
    by (simp add: encodebytes_def chunks.simps)
next
  case False
  then have "take 57 s \<noteq> []" by simp
  then obtain x rest where "b64_groups (take 57 s) = b64_char x # rest"
    using b64_groups_head by blast
  with False show ?thesis
    by (auto simp add: encodebytes_def b2a_base64_def chunks.simps [of 57 s])
qed

lemma strip_base64_is_rstrip:
  "strip (decode (encodebytes s)) = rstrip (decode (encodebytes s))"
  using encodebytes_head [of s]
  by (auto simp add: strip_def lstrip_def decode_def b64_char_not_space)

text \<open>
  The digest has 20 bytes, so its base64 text is one line of 28 characters and a newline,
  and stripping removes the newline and nothing else.
\<close>

lemma sha1_length: "length (sha1 m) = 20"
  by (simp add: sha1_def u32_bytes_def split: prod.split)

lemma hmac_sha1_length: "length (hmac_sha1 key msg) = 20"
  by (simp add: hmac_sha1_def Let_def sha1_length)

lemma b64_groups_no_space: "\<forall>b \<in> set (b64_groups bs). \<not> isspace (char_of (unat b))"
proof (induction bs rule: b64_groups.induct)
  case 1
  then show ?case by simp
next
  case (2 a)
  then show ?case by (simp add: b64_char_not_space) (simp add: isspace_def)
next
  case (3 a b)
  then show ?case by (simp add: b64_char_not_space) (simp add: isspace_def)
next
  case (4 a b c rest)
  then show ?case by (simp add: b64_char_not_space)
qed

lemma dropWhile_none:
  "\<forall>c \<in> set xs. \<not> P c \<Longrightarrow> dropWhile P xs = xs"
  by (cases xs) simp_all

lemma rstrip_newline:
  assumes "\<forall>c \<in> set s. \<not> isspace c"
  shows "rstrip (s @ [char_of (10 :: nat)]) = s"
proof -
  have "isspace (char_of (10 :: nat))"
    by (simp add: isspace_def)
  moreover have "dropWhile isspace (rev s) = rev s"
    using assms by (intro dropWhile_none) simp
  ultimately show ?thesis
    by (simp add: rstrip_def)
qed

lemma encodebytes_one_line:
  assumes "bs \<noteq> []" and "length bs \<le> 57"
  shows "encodebytes bs = b64_groups bs @ [0x0A]"
  using assms by (simp add: encodebytes_def b2a_base64_def chunks.simps [of 57 bs] chunks.simps [of 57 "[]"])

lemma signature_is_one_base64_line:
  "rstrip (decode (encodebytes (hmac_sha1 key msg))) = decode (b64_groups (hmac_sha1 key msg))"
proof -
  let ?d = "hmac_sha1 key msg"
  have "?d \<noteq> []" and "length ?d \<le> 57"
    using hmac_sha1_length [of key msg] by auto
  then have "decode (encodebytes ?d) = decode (b64_groups ?d) @ [char_of (10 :: nat)]"
    by (simp add: encodebytes_one_line decode_def)
  moreover have "\<forall>c \<in> set (decode (b64_groups ?d)). \<not> isspace c"
    using b64_groups_no_space by (auto simp: decode_def)
  ultimately show ?thesis
    by (simp add: rstrip_newline)
qed

subsection \<open>The library functions on small inputs\<close>

lemma encodebytes_example:
  "encodebytes [0x61, 0x62] = [0x59, 0x57, 0x49, 0x3D, 0x0A]"
  by (simp add: encodebytes_def b2a_base64_def chunks.simps b64_char_def b64_alphabet_def)

lemma str_int_example: "str_int 1700000000000 = ''1700000000000'' \<and> str_int (- 12) = ''-12''"
  by (simp add: str_int_def digits10.simps digit_char_def)

lemma encode_example: "encode [CHR ''a'', char_of (233 :: nat)] = [0x61, 0xC3, 0xA9]"
  by (simp add: encode_def utf8_char_def)

lemma sha1_pad_example:
  "sha1_pad [0x61, 0x62, 0x63]
     = [0x61, 0x62, 0x63, 0x80] @ replicate 52 0 @ [0, 0, 0, 0, 0, 0, 0, 0x18]"
  by (simp add: sha1_pad_def u64_bytes_def)

subsection \<open>Signing headers\<close>

lemma try_dispatched:
  assumes "inject_security_info self (headers req) = Inr hs"
    and "get_credentials self = Inr creds"
    and "rpc_client self = Some rpc"
  shows "trace (snd (request_naming_server_try E self req cls w)) =
           trace w @
           [InjectSecurityInfo (headers req),
            RpcSend (sign_request E creds (req\<lparr>headers := hs\<rparr>)) (grpc_timeout self),
            RpcDone (rpc (sign_request E creds (req\<lparr>headers := hs\<rparr>)) (grpc_timeout self))]"
  using assms
  by (simp add: request_naming_server_try_def emit_def Let_def split: sum.split)

lemma rns_extends_try:
  "\<exists>evs. trace (snd (request_naming_server E self req cls w))
      = trace (snd (request_naming_server_try E self req cls w)) @ evs"
  by (simp add: rns_snd emit_def split: sum.split pyexc.split)

lemma rns_dispatched:
  assumes "inject_security_info self (headers req) = Inr hs"
    and "get_credentials self = Inr creds"
    and "rpc_client self = Some rpc"
  shows "\<exists>evs. trace (snd (request_naming_server E self req cls w)) =
           trace w @
           [InjectSecurityInfo (headers req),
            RpcSend (sign_request E creds (req\<lparr>headers := hs\<rparr>)) (grpc_timeout self),
            RpcDone (rpc (sign_request E creds (req\<lparr>headers := hs\<rparr>)) (grpc_timeout self))]
           @ evs"
  using rns_extends_try [of E self req cls w]
    try_dispatched [OF assms, of E cls w]
  by auto

lemma sign_request_headers:
  assumes "access_key_id creds = Some ak" and "ak \<noteq> []"
    and "access_key_secret creds = Some sk" and "sk \<noteq> []"
  shows "headers (sign_request E creds R) ''ak'' = Some ak"
    and "headers (sign_request E creds R) ''data'' =
           Some (if strip (get_group_name E (serviceName R) (groupName R)) \<noteq> []
                 then str_int (get_current_time_millis E) @ ''@@''
                        @ get_group_name E (serviceName R) (groupName R)
                 else str_int (get_current_time_millis E))"
    and "headers (sign_request E creds R) ''signature'' =
           Some (rstrip (decode (encodebytes (hmac_sha1 (encode sk)
             (encode (if strip (get_group_name E (serviceName R) (groupName R)) \<noteq> []
                      then str_int (get_current_time_millis E) @ ''@@''
                             @ get_group_name E (serviceName R) (groupName R)
                      else str_int (get_current_time_millis E)))))))"
  using assms
  by (simp_all add: sign_request_def put_all_headers_def put_header_def Let_def
        SERVICE_INFO_SPLITER_def strip_base64_is_rstrip)

lemma sign_request_unsigned:
  "\<not> (truthy (access_key_id creds) \<and> truthy (access_key_secret creds))
     \<Longrightarrow> sign_request E creds R = R"
  by (auto simp add: sign_request_def)

text \<open>
  Claim C4. With an access key id and an access key secret that are both non-empty, the
  request that is dispatched carries the header \<^verbatim>\<open>data\<close> with the sign string, which is
  the time in milliseconds, \<^verbatim>\<open>@@\<close> and the service key when the service key is not empty
  after stripping, and the time alone otherwise; and the header \<^verbatim>\<open>signature\<close> with the
  base64 text of the HMAC-SHA1 of the sign string under the secret, its trailing whitespace
  removed.
\<close>

theorem dispatched_request_is_signed:
  assumes "inject_security_info self (headers req) = Inr hs"
    and "get_credentials self = Inr creds"
    and "rpc_client self = Some rpc"
    and "access_key_id creds = Some ak" and "ak \<noteq> []"
    and "access_key_secret creds = Some sk" and "sk \<noteq> []"
  shows "let service_key = get_group_name E (serviceName req) (groupName req);
             sign_str = (if strip service_key \<noteq> []
                         then str_int (get_current_time_millis E) @ ''@@'' @ service_key
                         else str_int (get_current_time_millis E))
         in \<exists>R evs. trace (snd (request_naming_server E self req cls w))
                        = trace w @ InjectSecurityInfo (headers req)
                            # RpcSend R (grpc_timeout self) # evs
              \<and> headers R ''ak'' = Some ak
              \<and> headers R ''data'' = Some sign_str
              \<and> headers R ''signature''
                  = Some (rstrip (decode (encodebytes (hmac_sha1 (encode sk) (encode sign_str)))))"
proof -
  let ?R = "sign_request E creds (req\<lparr>headers := hs\<rparr>)"
  obtain evs where "trace (snd (request_naming_server E self req cls w)) =
           trace w @ [InjectSecurityInfo (headers req), RpcSend ?R (grpc_timeout self),
                      RpcDone (rpc ?R (grpc_timeout self))] @ evs"
    using rns_dispatched [OF assms(1-3), of E cls w] by blast
  then have "trace (snd (request_naming_server E self req cls w)) =
           trace w @ InjectSecurityInfo (headers req) # RpcSend ?R (grpc_timeout self)
             # (RpcDone (rpc ?R (grpc_timeout self)) # evs)"
    by simp
  moreover note sign_request_headers [OF assms(4-7), of E "req\<lparr>headers := hs\<rparr>"]
  ultimately show ?thesis
    unfolding Let_def by (intro exI [of _ ?R] exI [of _ "RpcDone (rpc ?R (grpc_timeout self)) # evs"]) simp
qed

theorem dispatched_request_is_signed_witness:
  "\<exists>R evs. trace (snd (request_naming_server demo_env
                (demo_proxy demo_credentials (Inr (demo_response 200 0 [] True InstancePayload)))
                (InstanceRequest ''public'' ''svc-a'' ''DEFAULT_GROUP'' demo_instance REGISTER_INSTANCE)
                InstanceResponse demo_world))
              = InjectSecurityInfo Map.empty # RpcSend R 3000 # evs
     \<and> headers R ''ak'' = Some ''AK''
     \<and> headers R ''data'' = Some ''1700000000000@@DEFAULT_GROUP@@svc-a''
     \<and> headers R ''signature''
         = Some (rstrip (decode (encodebytes (hmac_sha1 (encode ''secret'')
                   (encode ''1700000000000@@DEFAULT_GROUP@@svc-a'')))))"
  using dispatched_request_is_signed
    [of "demo_proxy demo_credentials (Inr (demo_response 200 0 [] True InstancePayload))"
        "InstanceRequest ''public'' ''svc-a'' ''DEFAULT_GROUP'' demo_instance REGISTER_INSTANCE"
        Map.empty demo_credentials
        "\<lambda>request timeout. Inr (demo_response 200 0 [] True InstancePayload)"
        "''AK''" "''secret''" demo_env InstanceResponse demo_world]
  by (simp add: demo_defs InstanceRequest_def strip_def lstrip_def rstrip_def isspace_def
        str_int_def digits10.simps digit_char_def Let_def)

text \<open>
  Claim C7. With an access key id or an access key secret that is missing or empty, the
  proxy adds no header: the request is dispatched with the headers the connector gave
  back, and nothing else.
\<close>

theorem unsigned_request_dispatched_as_is:
  assumes "inject_security_info self (headers req) = Inr hs"
    and "get_credentials self = Inr creds"
    and "rpc_client self = Some rpc"
    and "\<not> (truthy (access_key_id creds) \<and> truthy (access_key_secret creds))"
  shows "\<exists>evs. trace (snd (request_naming_server E self req cls w)) =
           trace w @
           [InjectSecurityInfo (headers req),
            RpcSend (req\<lparr>headers := hs\<rparr>) (grpc_timeout self),
            RpcDone (rpc (req\<lparr>headers := hs\<rparr>) (grpc_timeout self))] @ evs"
  using rns_dispatched [OF assms(1-3), of E cls w] sign_request_unsigned [OF assms(4)]
  by simp

theorem unsigned_request_dispatched_as_is_witness:
  "trace (snd (request_naming_server demo_env
          (demo_proxy \<lparr>access_key_id = Some ''AK'', access_key_secret = Some [],
                         security_token = Some ''token''\<rparr>
             (Inr (demo_response 200 0 [] True InstancePayload)))
          (InstanceRequest ''public'' ''svc-a'' ''DEFAULT_GROUP'' demo_instance REGISTER_INSTANCE)
          InstanceResponse demo_world))
     = [InjectSecurityInfo Map.empty,
        RpcSend (InstanceRequest ''public'' ''svc-a'' ''DEFAULT_GROUP'' demo_instance
                   REGISTER_INSTANCE) 3000,
        RpcDone (Inr (demo_response 200 0 [] True InstancePayload))]"
  using unsigned_request_dispatched_as_is
    [of "demo_proxy \<lparr>access_key_id = Some ''AK'', access_key_secret = Some [],
                         security_token = Some ''token''\<rparr>
             (Inr (demo_response 200 0 [] True InstancePayload))"
        "InstanceRequest ''public'' ''svc-a'' ''DEFAULT_GROUP'' demo_instance REGISTER_INSTANCE"
        Map.empty
        "\<lparr>access_key_id = Some ''AK'', access_key_secret = Some [],
                         security_token = Some ''token''\<rparr>"
        "\<lambda>request timeout. Inr (demo_response 200 0 [] True InstancePayload)"
        demo_env InstanceResponse demo_world]
  by (simp add: demo_defs proxy_defs)

subsection \<open>Deregistration and the redo entry\<close>

lemma deregister_raises_iff:
  "fst (deregister_instance E self sn gn inst w) = Inl e \<longleftrightarrow>
   fst (request_naming_server E self
          (InstanceRequest (namespace_id self) sn gn inst DE_REGISTER_INSTANCE) InstanceResponse
          (emit (Log INFO
             ''deregister instance ip:%s, port:%s, service_name:%s, group_name:%s, namespace:%s''
             [ArgStr (ip inst), ArgInt (port inst), ArgStr sn, ArgStr gn,
              ArgStr (namespace_id self)]) w)) = Inl e"
  by (simp add: deregister_instance_fst split: sum.split)

text \<open>
  Claim C8. When a deregister call ends with an exception, whatever raised it, the redo
  entry has not been removed: the redo table is the one from before the call, and no
  removal is among the effects of the call.
\<close>

theorem failed_deregister_keeps_redo_entry:
  assumes "fst (deregister_instance E self sn gn inst w) = Inl e"
  shows "instance_redo (snd (deregister_instance E self sn gn inst w)) = instance_redo w
         \<and> (\<exists>evs. trace (snd (deregister_instance E self sn gn inst w)) = trace w @ evs
               \<and> (\<forall>a b. RemoveInstanceForRedo a b \<notin> set evs))"
proof -
  let ?l = "Log INFO
             ''deregister instance ip:%s, port:%s, service_name:%s, group_name:%s, namespace:%s''
             [ArgStr (ip inst), ArgInt (port inst), ArgStr sn, ArgStr gn,
              ArgStr (namespace_id self)]"
  let ?req = "InstanceRequest (namespace_id self) sn gn inst DE_REGISTER_INSTANCE"
  let ?r = "request_naming_server E self ?req InstanceResponse (emit ?l w)"
  from assms have raised: "fst ?r = Inl e"
    by (simp add: deregister_raises_iff)
  then have world: "snd (deregister_instance E self sn gn inst w) = snd ?r"
    by (simp add: deregister_instance_snd Let_def)
  obtain evs where evs: "trace (snd ?r) = trace (emit ?l w) @ evs"
    "\<forall>x \<in> set evs. \<not> is_redo_effect x"
    using rns_trace [of E self ?req InstanceResponse "emit ?l w"] by blast
  have "instance_redo (snd ?r) = instance_redo w"
    by (simp add: rns_redo_unchanged emit_def)
  moreover have "trace (snd ?r) = trace w @ (?l # evs)"
    using evs(1) by (simp add: emit_def)
  moreover have "\<forall>a b. RemoveInstanceForRedo a b \<notin> set (?l # evs)"
    using evs(2) by (auto simp: is_redo_effect_def)
  ultimately show ?thesis
    unfolding world by blast
qed

theorem failed_deregister_keeps_redo_entry_witness:
  "instance_redo (snd (deregister_instance demo_env
       (demo_proxy no_credentials (Inr (demo_response 500 403 ''forbidden'' False OtherPayload)))
       ''svc-a'' [] demo_instance
       (demo_world\<lparr>instance_redo := [''svc-a'' \<mapsto> RedoInstance demo_instance]\<rparr>)))
     = [''svc-a'' \<mapsto> RedoInstance demo_instance]
   \<and> instance_redo (snd (deregister_instance demo_env
       (demo_proxy no_credentials (Inr (demo_response 200 0 [] True (ServiceListPayload 0 []))))
       ''svc-a'' [] demo_instance
       (demo_world\<lparr>instance_redo := [''svc-a'' \<mapsto> RedoInstance demo_instance]\<rparr>)))
     = [''svc-a'' \<mapsto> RedoInstance demo_instance]
   \<and> instance_redo (snd (deregister_instance demo_env
       (demo_proxy no_credentials (Inl (PyException ''ConnectionError'' ''connection lost'')))
       ''svc-a'' [] demo_instance
       (demo_world\<lparr>instance_redo := [''svc-a'' \<mapsto> RedoInstance demo_instance]\<rparr>)))
     = [''svc-a'' \<mapsto> RedoInstance demo_instance]"
  using
    failed_deregister_keeps_redo_entry
      [of demo_env
          "demo_proxy no_credentials (Inr (demo_response 500 403 ''forbidden'' False OtherPayload))"
          "''svc-a''" "[]" demo_instance
          "demo_world\<lparr>instance_redo := [''svc-a'' \<mapsto> RedoInstance demo_instance]\<rparr>"
          "NacosException 403 ''forbidden''"]
    failed_deregister_keeps_redo_entry
      [of demo_env
          "demo_proxy no_credentials (Inr (demo_response 200 0 [] True (ServiceListPayload 0 [])))"
          "''svc-a''" "[]" demo_instance
          "demo_world\<lparr>instance_redo := [''svc-a'' \<mapsto> RedoInstance demo_instance]\<rparr>"
          "NacosException 500 '' Server return invalid response''"]
    failed_deregister_keeps_redo_entry
      [of demo_env
          "demo_proxy no_credentials (Inl (PyException ''ConnectionError'' ''connection lost''))"
          "''svc-a''" "[]" demo_instance
          "demo_world\<lparr>instance_redo := [''svc-a'' \<mapsto> RedoInstance demo_instance]\<rparr>"
          "NacosException 500 ''Request nacos naming server failed: connection lost''"]
  by (simp add: demo_defs proxy_defs)

text \<open>
  Claim C9. When the transport answers a deregister request with a response of result
  code 200 and class \<^verbatim>\<open>InstanceResponse\<close>, the redo entry is removed and the call returns
  what \<^verbatim>\<open>is_success()\<close> of the response gives, also when that is false.
\<close>

theorem answered_deregister_removes_redo_entry:
  assumes "inject_security_info self Map.empty = Inr hs"
    and "get_credentials self = Inr creds"
    and "rpc_client self = Some rpc"
    and "rpc (sign_request E creds
               ((InstanceRequest (namespace_id self) sn gn inst DE_REGISTER_INSTANCE)
                  \<lparr>headers := hs\<rparr>))
             (grpc_timeout self) = Inr r"
    and "result_code r = 200"
    and "class_of r = InstanceResponse"
  shows "fst (deregister_instance E self sn gn inst w) = Inr (success r)
         \<and> instance_redo (snd (deregister_instance E self sn gn inst w)) (get_group_name E sn gn)
             = None
         \<and> (\<exists>evs. trace (snd (deregister_instance E self sn gn inst w))
                     = trace w @ evs @ [RpcDone (Inr r), RemoveInstanceForRedo sn gn])"
proof -
  let ?l = "Log INFO
             ''deregister instance ip:%s, port:%s, service_name:%s, group_name:%s, namespace:%s''
             [ArgStr (ip inst), ArgInt (port inst), ArgStr sn, ArgStr gn,
              ArgStr (namespace_id self)]"
  let ?req = "InstanceRequest (namespace_id self) sn gn inst DE_REGISTER_INSTANCE"
  let ?R = "sign_request E creds (?req\<lparr>headers := hs\<rparr>)"
  let ?r = "request_naming_server E self ?req InstanceResponse (emit ?l w)"
  have h: "inject_security_info self (headers ?req) = Inr hs"
    using assms(1) by (simp add: InstanceRequest_def)
  note t = try_answered [OF h assms(2) assms(3) assms(4), of InstanceResponse "emit ?l w"]
  have res: "fst ?r = Inr r"
    using t(1) assms(5,6) by (simp add: rns_fst)
  have wld: "snd ?r = emit (RpcDone (Inr r))
                (emit (RpcSend ?R (grpc_timeout self))
                   (emit (InjectSecurityInfo (headers ?req)) (emit ?l w)))"
    using t res by (simp add: rns_snd try_Inr_iff_rns_Inr)
  have "fst (deregister_instance E self sn gn inst w) = Inr (success r)"
    using res by (simp add: deregister_instance_fst)
  moreover have "instance_redo (snd (deregister_instance E self sn gn inst w))
                   (get_group_name E sn gn) = None"
    using res by (simp add: deregister_instance_snd Let_def remove_instance_for_redo_def emit_def)
  moreover have "trace (snd (deregister_instance E self sn gn inst w))
      = trace w @ [?l, InjectSecurityInfo (headers ?req), RpcSend ?R (grpc_timeout self)]
          @ [RpcDone (Inr r), RemoveInstanceForRedo sn gn]"
    using res wld by (simp add: deregister_instance_snd Let_def remove_instance_for_redo_def emit_def)
  ultimately show ?thesis by blast
qed

theorem answered_deregister_removes_redo_entry_witness:
  "fst (deregister_instance demo_env
       (demo_proxy no_credentials (Inr (demo_response 200 0 [] False InstancePayload)))
       ''svc-a'' [] demo_instance
       (demo_world\<lparr>instance_redo := [''svc-a'' \<mapsto> RedoInstance demo_instance]\<rparr>))
     = Inr False
   \<and> instance_redo (snd (deregister_instance demo_env
       (demo_proxy no_credentials (Inr (demo_response 200 0 [] False InstancePayload)))
       ''svc-a'' [] demo_instance
       (demo_world\<lparr>instance_redo := [''svc-a'' \<mapsto> RedoInstance demo_instance]\<rparr>))) ''svc-a''
     = None"
  using answered_deregister_removes_redo_entry
      [of "demo_proxy no_credentials (Inr (demo_response 200 0 [] False InstancePayload))"
          Map.empty no_credentials
          "\<lambda>request timeout. Inr (demo_response 200 0 [] False InstancePayload)"
          demo_env "''svc-a''" "[]" demo_instance
          "demo_response 200 0 [] False InstancePayload"
          "demo_world\<lparr>instance_redo := [''svc-a'' \<mapsto> RedoInstance demo_instance]\<rparr>"]
  by (simp add: demo_defs class_of_def)

subsection \<open>Subscription\<close>

text \<open>
  Claim C6. When the transport answers a subscribe request with a response of result code
  200 and class \<^verbatim>\<open>SubscribeServiceResponse\<close>, the call raises nothing: if
  \<^verbatim>\<open>is_success()\<close> is false it returns \<^verbatim>\<open>None\<close> and its last effect is a log line at
  error level, and if it is true it returns the \<^verbatim>\<open>serviceInfo\<close> of the response.
\<close>

theorem subscribe_returns_none_on_unsuccessful_response:
  assumes "inject_security_info self [''app'' \<mapsto> app_name self] = Inr hs"
    and "get_credentials self = Inr creds"
    and "rpc_client self = Some rpc"
    and "rpc (sign_request E creds
               ((SubscribeServiceRequest (namespace_id self) gn sn cl True)\<lparr>headers := hs\<rparr>))
             (grpc_timeout self) = Inr r"
    and "result_code r = 200"
    and "payload r = SubscribeServicePayload info"
  shows "fst (subscribe E self sn gn cl w) = Inr (if success r then info else None)
         \<and> (\<not> success r \<longrightarrow>
              last (trace (snd (subscribe E self sn gn cl w)))
                = Log ERROR
                    ''failed to subscribe service_name:%s, group_name:%s, clusters:%s, namespace:%s, response:%s''
                    [ArgStr sn, ArgStr gn, ArgStr cl, ArgStr (namespace_id self), ArgResponse r])"
proof -
  let ?req = "put_header (SubscribeServiceRequest (namespace_id self) gn sn cl True)
                ''app'' (app_name self)"
  let ?w2 = "cache_subscribe_for_redo (get_group_name E sn gn) cl
               (emit (Log INFO
                  ''subscribe service_name:%s, group_name:%s, clusters:%s, namespace:%s''
                  [ArgStr sn, ArgStr gn, ArgStr cl, ArgStr (namespace_id self)]) w)"
  have hd: "headers ?req = [''app'' \<mapsto> app_name self]"
    by (simp add: put_header_def SubscribeServiceRequest_def)
  have rq: "?req\<lparr>headers := hs\<rparr>
              = (SubscribeServiceRequest (namespace_id self) gn sn cl True)\<lparr>headers := hs\<rparr>"
    by (simp add: put_header_def)
  have h1: "inject_security_info self (headers ?req) = Inr hs"
    using assms(1) hd by simp
  have h4: "rpc (sign_request E creds (?req\<lparr>headers := hs\<rparr>)) (grpc_timeout self) = Inr r"
    using assms(4) rq by simp
  have cls: "class_of r = SubscribeServiceResponse"
    using assms(6) by (simp add: class_of_def)
  have "fst (request_naming_server_try E self ?req SubscribeServiceResponse ?w2) = Inr r"
    using try_answered(1) [OF h1 assms(2) assms(3) h4, of SubscribeServiceResponse ?w2]
      assms(5) cls by simp
  then have "fst (request_naming_server E self ?req SubscribeServiceResponse ?w2) = Inr r"
    by (simp add: try_Inr_iff_rns_Inr)
  then obtain w3 where
    "request_naming_server E self ?req SubscribeServiceResponse ?w2 = (Inr r, w3)"
    by (cases "request_naming_server E self ?req SubscribeServiceResponse ?w2") simp
  then show ?thesis
    using assms(6) by (simp add: subscribe_def Let_def emit_def)
qed

theorem subscribe_returns_none_on_unsuccessful_response_witness:
  "fst (subscribe demo_env
          (demo_proxy no_credentials
             (Inr (demo_response 200 0 [] False (SubscribeServicePayload None))))
          ''svc-a'' ''DEFAULT_GROUP'' ''c1'' demo_world)
     = Inr None
   \<and> last (trace (snd (subscribe demo_env
          (demo_proxy no_credentials
             (Inr (demo_response 200 0 [] False (SubscribeServicePayload None))))
          ''svc-a'' ''DEFAULT_GROUP'' ''c1'' demo_world)))
     = Log ERROR
         ''failed to subscribe service_name:%s, group_name:%s, clusters:%s, namespace:%s, response:%s''
         [ArgStr ''svc-a'', ArgStr ''DEFAULT_GROUP'', ArgStr ''c1'', ArgStr ''public'',
          ArgResponse (demo_response 200 0 [] False (SubscribeServicePayload None))]
   \<and> fst (subscribe demo_env
          (demo_proxy no_credentials
             (Inr (demo_response 200 0 [] True
                (SubscribeServicePayload
                   (Some \<lparr>svc_name = ''svc-a'', svc_group = ''DEFAULT_GROUP'',
                           svc_clusters = ''c1'', hosts = [demo_instance]\<rparr>)))))
          ''svc-a'' ''DEFAULT_GROUP'' ''c1'' demo_world)
     = Inr (Some \<lparr>svc_name = ''svc-a'', svc_group = ''DEFAULT_GROUP'',
                    svc_clusters = ''c1'', hosts = [demo_instance]\<rparr>)"
  using
    subscribe_returns_none_on_unsuccessful_response
      [of "demo_proxy no_credentials
             (Inr (demo_response 200 0 [] False (SubscribeServicePayload None)))"
          "[''app'' \<mapsto> ''demo-app'']" no_credentials
          "\<lambda>request timeout. Inr (demo_response 200 0 [] False (SubscribeServicePayload None))"
          demo_env "''DEFAULT_GROUP''" "''svc-a''" "''c1''"
          "demo_response 200 0 [] False (SubscribeServicePayload None)" None demo_world]
    subscribe_returns_none_on_unsuccessful_response
      [of "demo_proxy no_credentials
             (Inr (demo_response 200 0 [] True
                (SubscribeServicePayload
                   (Some \<lparr>svc_name = ''svc-a'', svc_group = ''DEFAULT_GROUP'',
                           svc_clusters = ''c1'', hosts = [demo_instance]\<rparr>))))"
          "[''app'' \<mapsto> ''demo-app'']" no_credentials
          "\<lambda>request timeout. Inr (demo_response 200 0 [] True
                (SubscribeServicePayload
                   (Some \<lparr>svc_name = ''svc-a'', svc_group = ''DEFAULT_GROUP'',
                           svc_clusters = ''c1'', hosts = [demo_instance]\<rparr>)))"
          demo_env "''DEFAULT_GROUP''" "''svc-a''" "''c1''"
          "demo_response 200 0 [] True
                (SubscribeServicePayload
                   (Some \<lparr>svc_name = ''svc-a'', svc_group = ''DEFAULT_GROUP'',
                           svc_clusters = ''c1'', hosts = [demo_instance]\<rparr>))"
          "Some \<lparr>svc_name = ''svc-a'', svc_group = ''DEFAULT_GROUP'',
                           svc_clusters = ''c1'', hosts = [demo_instance]\<rparr>" demo_world]
  by (simp add: demo_defs)

lemma sign_request_keeps:
  "namespace (sign_request E creds R) = namespace R"
  "serviceName (sign_request E creds R) = serviceName R"
  "groupName (sign_request E creds R) = groupName R"
  "body (sign_request E creds R) = body R"
  "headers (sign_request E creds R) ''app'' = headers R ''app''"
  by (simp_all add: sign_request_def put_all_headers_def put_header_def Let_def)

lemma try_sends:
  "\<exists>evs. trace (snd (request_naming_server_try E self req cls w))
            = trace w @ InjectSecurityInfo (headers req) # evs
      \<and> (\<forall>R t. RpcSend R t \<in> set evs \<longrightarrow>
             (\<exists>hs creds. inject_security_info self (headers req) = Inr hs
                \<and> R = sign_request E creds (req\<lparr>headers := hs\<rparr>)))"
  by (auto simp add: request_naming_server_try_def emit_def Let_def
        split: sum.split option.split)

lemma rns_sends:
  "\<exists>evs. trace (snd (request_naming_server E self req cls w))
            = trace w @ InjectSecurityInfo (headers req) # evs
      \<and> (\<forall>R t. RpcSend R t \<in> set evs \<longrightarrow>
             (\<exists>hs creds. inject_security_info self (headers req) = Inr hs
                \<and> R = sign_request E creds (req\<lparr>headers := hs\<rparr>)))"
proof -
  obtain evs where evs:
    "trace (snd (request_naming_server_try E self req cls w))
       = trace w @ InjectSecurityInfo (headers req) # evs"
    "\<forall>R t. RpcSend R t \<in> set evs \<longrightarrow>
       (\<exists>hs creds. inject_security_info self (headers req) = Inr hs
          \<and> R = sign_request E creds (req\<lparr>headers := hs\<rparr>))"
    using try_sends [of E self req cls w] by blast
  have "snd (request_naming_server E self req cls w)
          = snd (request_naming_server_try E self req cls w)
        \<or> (\<exists>s xs. snd (request_naming_server E self req cls w)
              = emit (Log ERROR s xs) (snd (request_naming_server_try E self req cls w)))"
    by (auto simp add: rns_snd split: sum.split pyexc.split)
  then show ?thesis
  proof
    assume "snd (request_naming_server E self req cls w)
          = snd (request_naming_server_try E self req cls w)"
    with evs show ?thesis by metis
  next
    assume "\<exists>s xs. snd (request_naming_server E self req cls w)
              = emit (Log ERROR s xs) (snd (request_naming_server_try E self req cls w))"
    then obtain s xs where "snd (request_naming_server E self req cls w)
              = emit (Log ERROR s xs) (snd (request_naming_server_try E self req cls w))"
      by blast
    then have "trace (snd (request_naming_server E self req cls w))
        = trace w @ InjectSecurityInfo (headers req) # (evs @ [Log ERROR s xs])"
      using evs(1) by (simp add: emit_def)
    moreover have "\<forall>R t. RpcSend R t \<in> set (evs @ [Log ERROR s xs]) \<longrightarrow>
       (\<exists>hs creds. inject_security_info self (headers req) = Inr hs
          \<and> R = sign_request E creds (req\<lparr>headers := hs\<rparr>))"
      using evs(2) by simp
    ultimately show ?thesis by blast
  qed
qed

lemma subscribe_snd:
  "\<exists>evs. trace (snd (subscribe E self sn gn cl w))
      = trace (snd (request_naming_server E self
                 (put_header (SubscribeServiceRequest (namespace_id self) gn sn cl True)
                    ''app'' (app_name self))
                 SubscribeServiceResponse
                 (cache_subscribe_for_redo (get_group_name E sn gn) cl
                    (emit (Log INFO
                       ''subscribe service_name:%s, group_name:%s, clusters:%s, namespace:%s''
                       [ArgStr sn, ArgStr gn, ArgStr cl, ArgStr (namespace_id self)]) w)))) @ evs
      \<and> (\<forall>R t. RpcSend R t \<notin> set evs)"
  by (simp add: subscribe_def Let_def emit_def
        split: prod.split sum.split response_payload.split)

lemma unsubscribe_snd:
  "snd (unsubscribe E self sn gn cl w)
      = snd (request_naming_server E self
               (SubscribeServiceRequest (namespace_id self) gn sn cl False)
               SubscribeServiceResponse
               (remove_subscriber_for_redo (get_group_name E sn gn) cl
                  (emit (Log INFO
                     ''unSubscribe service_name:%s, group_name:%s, clusters:%s, namespace:%s''
                     [ArgStr sn, ArgStr gn, ArgStr cl, ArgStr (namespace_id self)]) w)))"
  by (simp add: unsubscribe_def Let_def split: prod.split sum.split)

lemma subscribe_app_header:
  "\<exists>evs. trace (snd (subscribe E self sn gn cl w)) = trace w @ evs
      \<and> InjectSecurityInfo [''app'' \<mapsto> app_name self] \<in> set evs
      \<and> (\<forall>R t. RpcSend R t \<in> set evs \<longrightarrow>
            namespace R = namespace_id self \<and> groupName R = gn \<and> serviceName R = sn
            \<and> body R = SubscribeServiceBody cl True
            \<and> (\<exists>hs. inject_security_info self [''app'' \<mapsto> app_name self] = Inr hs
                  \<and> headers R ''app'' = hs ''app''))"
proof -
  let ?l = "Log INFO ''subscribe service_name:%s, group_name:%s, clusters:%s, namespace:%s''
              [ArgStr sn, ArgStr gn, ArgStr cl, ArgStr (namespace_id self)]"
  let ?req = "put_header (SubscribeServiceRequest (namespace_id self) gn sn cl True)
                ''app'' (app_name self)"
  let ?w2 = "cache_subscribe_for_redo (get_group_name E sn gn) cl (emit ?l w)"
  have hd: "headers ?req = [''app'' \<mapsto> app_name self]"
    by (simp add: put_header_def SubscribeServiceRequest_def)
  have w2: "trace ?w2 = trace w @ [?l, CacheSubscribeForRedo (get_group_name E sn gn) cl]"
    by (simp add: cache_subscribe_for_redo_def emit_def)
  obtain evs where evs:
    "trace (snd (request_naming_server E self ?req SubscribeServiceResponse ?w2))
       = trace ?w2 @ InjectSecurityInfo (headers ?req) # evs"
    "\<forall>R t. RpcSend R t \<in> set evs \<longrightarrow>
       (\<exists>hs creds. inject_security_info self (headers ?req) = Inr hs
          \<and> R = sign_request E creds (?req\<lparr>headers := hs\<rparr>))"
    using rns_sends [of E self ?req SubscribeServiceResponse ?w2] by blast
  obtain evs' where evs':
    "trace (snd (subscribe E self sn gn cl w))
       = trace (snd (request_naming_server E self ?req SubscribeServiceResponse ?w2)) @ evs'"
    "\<forall>R t. RpcSend R t \<notin> set evs'"
    using subscribe_snd [of E self sn gn cl w] by blast
  let ?all = "[?l, CacheSubscribeForRedo (get_group_name E sn gn) cl,
               InjectSecurityInfo [''app'' \<mapsto> app_name self]] @ evs @ evs'"
  have tr: "trace (snd (subscribe E self sn gn cl w)) = trace w @ ?all"
    using evs(1) evs'(1) w2 hd by simp
  have inj: "InjectSecurityInfo [''app'' \<mapsto> app_name self] \<in> set ?all"
    by simp
  have sends: "\<forall>R t. RpcSend R t \<in> set ?all \<longrightarrow>
            namespace R = namespace_id self \<and> groupName R = gn \<and> serviceName R = sn
            \<and> body R = SubscribeServiceBody cl True
            \<and> (\<exists>hs. inject_security_info self [''app'' \<mapsto> app_name self] = Inr hs
                  \<and> headers R ''app'' = hs ''app'')"
  proof (intro allI impI)
    fix R t
    assume "RpcSend R t \<in> set ?all"
    then have "RpcSend R t \<in> set evs"
      using evs'(2) by auto
    then obtain hs creds where
      "inject_security_info self (headers ?req) = Inr hs"
      "R = sign_request E creds (?req\<lparr>headers := hs\<rparr>)"
      using evs(2) by blast
    then show "namespace R = namespace_id self \<and> groupName R = gn \<and> serviceName R = sn
            \<and> body R = SubscribeServiceBody cl True
            \<and> (\<exists>hs. inject_security_info self [''app'' \<mapsto> app_name self] = Inr hs
                  \<and> headers R ''app'' = hs ''app'')"
      using hd by (simp add: sign_request_keeps put_header_def SubscribeServiceRequest_def)
  qed
  from tr inj sends show ?thesis by blast
qed

lemma unsubscribe_no_app_header:
  "\<exists>evs. trace (snd (unsubscribe E self sn gn cl w)) = trace w @ evs
      \<and> InjectSecurityInfo Map.empty \<in> set evs
      \<and> (\<forall>R t. RpcSend R t \<in> set evs \<longrightarrow>
            namespace R = namespace_id self \<and> groupName R = gn \<and> serviceName R = sn
            \<and> body R = SubscribeServiceBody cl False
            \<and> (\<exists>hs. inject_security_info self Map.empty = Inr hs
                  \<and> headers R ''app'' = hs ''app''))"
proof -
  let ?l = "Log INFO ''unSubscribe service_name:%s, group_name:%s, clusters:%s, namespace:%s''
              [ArgStr sn, ArgStr gn, ArgStr cl, ArgStr (namespace_id self)]"
  let ?req = "SubscribeServiceRequest (namespace_id self) gn sn cl False"
  let ?w2 = "remove_subscriber_for_redo (get_group_name E sn gn) cl (emit ?l w)"
  have hd: "headers ?req = Map.empty"
    by (simp add: SubscribeServiceRequest_def)
  have w2: "trace ?w2 = trace w @ [?l, RemoveSubscriberForRedo (get_group_name E sn gn) cl]"
    by (simp add: remove_subscriber_for_redo_def emit_def)
  obtain evs where evs:
    "trace (snd (request_naming_server E self ?req SubscribeServiceResponse ?w2))
       = trace ?w2 @ InjectSecurityInfo (headers ?req) # evs"
    "\<forall>R t. RpcSend R t \<in> set evs \<longrightarrow>
       (\<exists>hs creds. inject_security_info self (headers ?req) = Inr hs
          \<and> R = sign_request E creds (?req\<lparr>headers := hs\<rparr>))"
    using rns_sends [of E self ?req SubscribeServiceResponse ?w2] by blast
  let ?all = "[?l, RemoveSubscriberForRedo (get_group_name E sn gn) cl,
               InjectSecurityInfo Map.empty] @ evs"
  have tr: "trace (snd (unsubscribe E self sn gn cl w)) = trace w @ ?all"
    using evs(1) w2 hd by (simp add: unsubscribe_snd)
  have inj: "InjectSecurityInfo Map.empty \<in> set ?all"
    by simp
  have sends: "\<forall>R t. RpcSend R t \<in> set ?all \<longrightarrow>
            namespace R = namespace_id self \<and> groupName R = gn \<and> serviceName R = sn
            \<and> body R = SubscribeServiceBody cl False
            \<and> (\<exists>hs. inject_security_info self Map.empty = Inr hs
                  \<and> headers R ''app'' = hs ''app'')"
  proof (intro allI impI)
    fix R t
    assume "RpcSend R t \<in> set ?all"
    then have "RpcSend R t \<in> set evs"
      by auto
    then obtain hs creds where
      "inject_security_info self (headers ?req) = Inr hs"
      "R = sign_request E creds (?req\<lparr>headers := hs\<rparr>)"
      using evs(2) by blast
    then show "namespace R = namespace_id self \<and> groupName R = gn \<and> serviceName R = sn
            \<and> body R = SubscribeServiceBody cl False
            \<and> (\<exists>hs. inject_security_info self Map.empty = Inr hs
                  \<and> headers R ''app'' = hs ''app'')"
      using hd by (simp add: sign_request_keeps SubscribeServiceRequest_def)
  qed
  from tr inj sends show ?thesis by blast
qed

text \<open>
  Claim C10. A subscribe call hands the connector a header dictionary that holds
  \<^verbatim>\<open>app\<close> with the application name of the client and nothing else, an unsubscribe call
  hands it an empty one. Every request either call dispatches has the namespace of the
  client, the group, the service name, the clusters and the subscribe flag (true for
  subscribe, false for unsubscribe), and its \<^verbatim>\<open>app\<close> header is what the connector made
  of the dictionary it was given: signing does not touch it.
\<close>

theorem subscribe_sends_app_header_unsubscribe_none:
  "(\<exists>evs. trace (snd (subscribe E self sn gn cl w)) = trace w @ evs
      \<and> InjectSecurityInfo [''app'' \<mapsto> app_name self] \<in> set evs
      \<and> (\<forall>R t. RpcSend R t \<in> set evs \<longrightarrow>
            namespace R = namespace_id self \<and> groupName R = gn \<and> serviceName R = sn
            \<and> body R = SubscribeServiceBody cl True
            \<and> (\<exists>hs. inject_security_info self [''app'' \<mapsto> app_name self] = Inr hs
                  \<and> headers R ''app'' = hs ''app'')))
   \<and> (\<exists>evs. trace (snd (unsubscribe E self sn gn cl w)) = trace w @ evs
      \<and> InjectSecurityInfo Map.empty \<in> set evs
      \<and> (\<forall>R t. RpcSend R t \<in> set evs \<longrightarrow>
            namespace R = namespace_id self \<and> groupName R = gn \<and> serviceName R = sn
            \<and> body R = SubscribeServiceBody cl False
            \<and> (\<exists>hs. inject_security_info self Map.empty = Inr hs
                  \<and> headers R ''app'' = hs ''app'')))"
  using subscribe_app_header [of E self sn gn cl w] unsubscribe_no_app_header [of E self sn gn cl w]
  by blast

theorem subscribe_sends_app_header_unsubscribe_none_witness:
  "RpcSend ((SubscribeServiceRequest ''public'' ''DEFAULT_GROUP'' ''svc-a'' ''c1'' True)
              \<lparr>headers := [''app'' \<mapsto> ''demo-app'']\<rparr>) 3000
     \<in> set (trace (snd (subscribe demo_env
          (demo_proxy no_credentials
             (Inr (demo_response 200 0 [] True (SubscribeServicePayload None))))
          ''svc-a'' ''DEFAULT_GROUP'' ''c1'' demo_world)))
   \<and> RpcSend (SubscribeServiceRequest ''public'' ''DEFAULT_GROUP'' ''svc-a'' ''c1'' False) 3000
     \<in> set (trace (snd (unsubscribe demo_env
          (demo_proxy no_credentials
             (Inr (demo_response 200 0 [] True (SubscribeServicePayload None))))
          ''svc-a'' ''DEFAULT_GROUP'' ''c1'' demo_world)))
   \<and> headers (SubscribeServiceRequest ''public'' ''DEFAULT_GROUP'' ''svc-a'' ''c1'' False) ''app''
     = None"
  using subscribe_sends_app_header_unsubscribe_none
      [of demo_env
          "demo_proxy no_credentials
             (Inr (demo_response 200 0 [] True (SubscribeServicePayload None)))"
          "''svc-a''" "''DEFAULT_GROUP''" "''c1''" demo_world]
  by (simp add: demo_defs proxy_defs)

end
